theory Spec2Isabelle
  imports Main "HOL-Library.Sublist"
begin

section \<open>Python values, strings and exceptions\<close>

text \<open>
  The two modules \<^verbatim>\<open>chatbot.py\<close> and \<^verbatim>\<open>client.py\<close> pass dynamically typed
  Python values around. The values a tool handler can return are modelled by the
  datatype \<open>pyval\<close>: \<open>None\<close>, booleans, unbounded integers, strings, lists, dicts
  (association lists in insertion order) and \<open>PyObj s\<close>, an object of any other class
  whose \<open>str()\<close> is \<open>s\<close>, which the \<open>json\<close> module cannot serialise and which is truthy
  (a class with neither \<open>__bool__\<close> nor \<open>__len__\<close>). Floats and tuples are outside the
  model. A Python string is a \<open>string\<close> whose characters are read as the code points
  0 to 255.
\<close>

datatype pyval =
    PyNone
  | PyBool bool
  | PyInt int
  | PyStr string
  | PyList "pyval list"
  | PyDict "(pyval \<times> pyval) list"
  | PyObj string

text \<open>
  Exceptions are values. \<open>Failure msg\<close> stands for any exception derived from
  \<open>Exception\<close> that an external collaborator raises (the model service, a tool handler,
  the tool host's channel); \<open>KeyboardInterrupt\<close> is the one modelled exception that
  derives from \<open>BaseException\<close> only, so that \<^verbatim>\<open>except Exception\<close> does not catch it.
\<close>

datatype exn =
    KeyError string
  | TypeError
  | IndexError
  | AttributeError
  | UnboundLocalError
  | EOFError
  | Failure string
  | KeyboardInterrupt

fun is_Exception :: "exn \<Rightarrow> bool" where
  "is_Exception KeyboardInterrupt = False"
| "is_Exception _ = True"

text \<open>The truth value Python gives a value in \<^verbatim>\<open>if result:\<close>.\<close>

fun truthy :: "pyval \<Rightarrow> bool" where
  "truthy PyNone = False"
| "truthy (PyBool b) = b"
| "truthy (PyInt i) = (i \<noteq> 0)"
| "truthy (PyStr s) = (s \<noteq> [])"
| "truthy (PyList xs) = (xs \<noteq> [])"
| "truthy (PyDict kvs) = (kvs \<noteq> [])"
| "truthy (PyObj s) = True"

subsection \<open>String methods\<close>

text \<open>
  \<^verbatim>\<open>str.isspace\<close> on the code points below 256: tab, line feed, vertical tab, form
  feed, carriage return, the four separators 28 to 31, space, NEL (133) and the
  no-break space (160).
\<close>

definition isspace :: "char \<Rightarrow> bool" where
  "isspace c = ((of_char c :: nat) \<in> {9, 10, 11, 12, 13, 28, 29, 30, 31, 32, 133, 160})"

text \<open>\<^verbatim>\<open>s.strip()\<close>: whitespace removed at both ends.\<close>

definition strip :: "string \<Rightarrow> string" where
  "strip s = rev (dropWhile isspace (rev (dropWhile isspace s)))"

text \<open>
  \<^verbatim>\<open>s.lower()\<close>: \<open>A\<close> to \<open>Z\<close> and the Latin-1 capitals 192 to 222 (the multiplication
  sign 215 apart) move up by 32; every other code point below 256 stays.
\<close>

definition lower_char :: "char \<Rightarrow> char" where
  "lower_char c =
     (let n = (of_char c :: nat)
      in if (65 \<le> n \<and> n \<le> 90) \<or> (192 \<le> n \<and> n \<le> 222 \<and> n \<noteq> 215)
         then char_of (n + 32) else c)"

definition lower :: "string \<Rightarrow> string" where
  "lower s = map lower_char s"

text \<open>\<^verbatim>\<open>sep.join(xs)\<close> on strings.\<close>

fun join_strings :: "string \<Rightarrow> string list \<Rightarrow> string" where
  "join_strings sep [] = []"
| "join_strings sep [x] = x"
| "join_strings sep (x # y # ys) = x @ sep @ join_strings sep (y # ys)"

text \<open>
  \<^verbatim>\<open>",".join(result)\<close> on a list of values: \<open>str.join\<close> raises \<open>TypeError\<close> as soon as
  one element is not a string.
\<close>

fun as_str :: "pyval \<Rightarrow> string option" where
  "as_str (PyStr s) = Some s"
| "as_str _ = None"

definition str_join :: "string \<Rightarrow> pyval list \<Rightarrow> exn + string" where
  "str_join sep xs =
     (case those (map as_str xs) of
        None \<Rightarrow> Inl TypeError
      | Some ss \<Rightarrow> Inr (join_strings sep ss))"

subsection \<open>Decimal conversion\<close>

definition digit_char :: "nat \<Rightarrow> char" where
  "digit_char d = char_of (48 + d)"

fun str_nat :: "nat \<Rightarrow> string" where
  "str_nat n = (if n < 10 then [digit_char n] else str_nat (n div 10) @ [digit_char (n mod 10)])"

declare str_nat.simps [simp del]

text \<open>\<^verbatim>\<open>str(i)\<close> of an integer (without the interpreter's limit on the number of digits).\<close>

definition str_int :: "int \<Rightarrow> string" where
  "str_int i = (if i < 0 then CHR ''-'' # str_nat (nat (- i)) else str_nat (nat i))"

definition str_bool :: "bool \<Rightarrow> string" where
  "str_bool b = (if b then ''True'' else ''False'')"

section \<open>The json module: dumps with indent=2\<close>

text \<open>
  \<^verbatim>\<open>json.dumps(result, indent=2)\<close> with the defaults \<open>ensure_ascii=True\<close>,
  \<open>skipkeys=False\<close>, \<open>sort_keys=False\<close>: the item separator is a comma followed by a
  new line and the indentation, the key separator is a colon and a space.
\<close>

definition hex_char :: "nat \<Rightarrow> char" where
  "hex_char d = (if d < 10 then char_of (48 + d) else char_of (87 + d))"

text \<open>
  One character inside a JSON string: the quote and the backslash are escaped, the
  control characters with a short form use it, and every other code point outside
  space to tilde is written \<open>\u00xx\<close>.
\<close>

definition escape_char :: "char \<Rightarrow> string" where
  "escape_char c =
     (let n = (of_char c :: nat)
      in if n = 34 then [CHR 0x5C, CHR 0x22]
         else if n = 92 then [CHR 0x5C, CHR 0x5C]
         else if n = 10 then [CHR 0x5C, CHR ''n'']
         else if n = 13 then [CHR 0x5C, CHR ''r'']
         else if n = 9 then [CHR 0x5C, CHR ''t'']
         else if n = 8 then [CHR 0x5C, CHR ''b'']
         else if n = 12 then [CHR 0x5C, CHR ''f'']
         else if n < 32 \<or> 126 < n
           then [CHR 0x5C, CHR ''u'', CHR ''0'', CHR ''0'', hex_char (n div 16), hex_char (n mod 16)]
         else [c])"

definition encode_basestring_ascii :: "string \<Rightarrow> string" where
  "encode_basestring_ascii s = CHR 0x22 # concat (map escape_char s) @ [CHR 0x22]"

text \<open>
  A dict key: a string stays, \<open>True\<close>, \<open>False\<close>, \<open>None\<close> and integers are converted,
  any other key raises \<open>TypeError\<close>.
\<close>

fun json_key :: "pyval \<Rightarrow> exn + string" where
  "json_key (PyStr s) = Inr s"
| "json_key (PyBool b) = Inr (if b then ''true'' else ''false'')"
| "json_key PyNone = Inr ''null''"
| "json_key (PyInt i) = Inr (str_int i)"
| "json_key _ = Inl TypeError"

definition newline_indent :: "nat \<Rightarrow> string" where
  "newline_indent level = CHR 0x0A # replicate (2 * level) CHR '' ''"

text \<open>
  The encoder at nesting depth \<open>level\<close>. \<open>iterencode_list\<close> and \<open>iterencode_dict\<close>
  return the texts of the items in order; the first item that cannot be serialised
  raises.
\<close>

fun iterencode :: "nat \<Rightarrow> pyval \<Rightarrow> exn + string"
  and iterencode_list :: "nat \<Rightarrow> pyval list \<Rightarrow> exn + string list"
  and iterencode_dict :: "nat \<Rightarrow> (pyval \<times> pyval) list \<Rightarrow> exn + string list" where
  "iterencode level PyNone = Inr ''null''"
| "iterencode level (PyBool b) = Inr (if b then ''true'' else ''false'')"
| "iterencode level (PyInt i) = Inr (str_int i)"
| "iterencode level (PyStr s) = Inr (encode_basestring_ascii s)"
| "iterencode level (PyList xs) =
     (if xs = [] then Inr ''[]''
      else case iterencode_list (Suc level) xs of
             Inl e \<Rightarrow> Inl e
           | Inr items \<Rightarrow>
               Inr (''['' @ newline_indent (Suc level)
                    @ join_strings (CHR '','' # newline_indent (Suc level)) items
                    @ newline_indent level @ '']''))"
| "iterencode level (PyDict kvs) =
     (if kvs = [] then Inr ''{}''
      else case iterencode_dict (Suc level) kvs of
             Inl e \<Rightarrow> Inl e
           | Inr items \<Rightarrow>
               Inr (''{'' @ newline_indent (Suc level)
                    @ join_strings (CHR '','' # newline_indent (Suc level)) items
                    @ newline_indent level @ ''}''))"
| "iterencode level (PyObj s) = Inl TypeError"
| "iterencode_list level [] = Inr []"
| "iterencode_list level (x # xs) =
     (case iterencode level x of
        Inl e \<Rightarrow> Inl e
      | Inr item \<Rightarrow>
          (case iterencode_list level xs of
             Inl e \<Rightarrow> Inl e
           | Inr items \<Rightarrow> Inr (item # items)))"
| "iterencode_dict level [] = Inr []"
| "iterencode_dict level ((k, v) # kvs) =
     (case json_key k of
        Inl e \<Rightarrow> Inl e
      | Inr key \<Rightarrow>
          (case iterencode level v of
             Inl e \<Rightarrow> Inl e
           | Inr item \<Rightarrow>
               (case iterencode_dict level kvs of
                  Inl e \<Rightarrow> Inl e
                | Inr items \<Rightarrow> Inr ((encode_basestring_ascii key @ '': '' @ item) # items))))"

definition json_dumps_indent2 :: "pyval \<Rightarrow> exn + string" where
  "json_dumps_indent2 obj = iterencode 0 obj"

text \<open>
  Which values the encoder accepts: every value but \<open>PyObj\<close>, in lists and dicts of
  any depth, under keys that are strings, booleans, \<open>None\<close> or integers.
\<close>

fun is_json_key :: "pyval \<Rightarrow> bool" where
  "is_json_key (PyStr s) = True"
| "is_json_key (PyBool b) = True"
| "is_json_key PyNone = True"
| "is_json_key (PyInt i) = True"
| "is_json_key _ = False"

fun serializable :: "pyval \<Rightarrow> bool"
  and serializable_list :: "pyval list \<Rightarrow> bool"
  and serializable_dict :: "(pyval \<times> pyval) list \<Rightarrow> bool" where
  "serializable (PyList xs) = serializable_list xs"
| "serializable (PyDict kvs) = serializable_dict kvs"
| "serializable (PyObj s) = False"
| "serializable PyNone = True"
| "serializable (PyBool b) = True"
| "serializable (PyInt i) = True"
| "serializable (PyStr s) = True"
| "serializable_list [] = True"
| "serializable_list (x # xs) = (serializable x \<and> serializable_list xs)"
| "serializable_dict [] = True"
| "serializable_dict ((k, v) # kvs) = (is_json_key k \<and> serializable v \<and> serializable_dict kvs)"

section \<open>chatbot.py: execute_tool\<close>

type_synonym args = "(string \<times> pyval) list"

type_synonym handler = "args \<Rightarrow> exn + pyval"

definition no_results_message :: string where
  "no_results_message = ''The operation completed but didn't return any results.''"

text \<open>
  The \<^verbatim>\<open>if\<close>/\<^verbatim>\<open>elif\<close> chain of \<^verbatim>\<open>execute_tool\<close> on the handler's result. The last four
  equations are the \<^verbatim>\<open>else\<close> branch, \<^verbatim>\<open>str(result)\<close>, on the values that are neither
  \<open>None\<close> nor a list nor a dict.
\<close>

fun normalize_result :: "pyval \<Rightarrow> exn + string" where
  "normalize_result PyNone = Inr no_results_message"
| "normalize_result (PyList xs) = str_join '','' xs"
| "normalize_result (PyDict kvs) = json_dumps_indent2 (PyDict kvs)"
| "normalize_result (PyBool b) = Inr (str_bool b)"
| "normalize_result (PyInt i) = Inr (str_int i)"
| "normalize_result (PyStr s) = Inr s"
| "normalize_result (PyObj s) = Inr s"

text \<open>
  \<^verbatim>\<open>mapping_tool_function[tool_name](**tool_args)\<close>: the subscript raises \<open>KeyError\<close> on
  a name that is not a key, the handler's exception propagates (there is no
  \<^verbatim>\<open>try\<close> in the function), and a returned value goes through the chain above.
\<close>

definition execute_tool :: "string \<Rightarrow> args \<Rightarrow> (string \<rightharpoonup> handler) \<Rightarrow> exn + string" where
  "execute_tool tool_name tool_args mapping_tool_function =
     (case mapping_tool_function tool_name of
        None \<Rightarrow> Inl (KeyError tool_name)
      | Some f \<Rightarrow>
          (case f tool_args of
             Inl e \<Rightarrow> Inl e
           | Inr result \<Rightarrow> normalize_result result))"

section \<open>The collaborators and the trace of a run\<close>

text \<open>
  A tool descriptor as the model service receives it: one function declaration
  (name, description, JSON-schema parameters) wrapped in a \<^verbatim>\<open>types.Tool\<close>.
\<close>

record function_declaration =
  fd_name :: string
  fd_description :: "string option"
  fd_parameters :: args

datatype tool = Tool (function_declarations: "function_declaration list")

text \<open>The constant \<^verbatim>\<open>TOOLS\<close> of \<^verbatim>\<open>chatbot.py\<close>.\<close>

definition TOOLS :: "function_declaration list" where
  "TOOLS =
     [\<lparr>fd_name = ''search_papers'',
       fd_description = Some ''Search for papers on arXiv'',
       fd_parameters =
         [(''type'', PyStr ''object''),
          (''properties'',
             PyDict
               [(PyStr ''topic'',
                   PyDict [(PyStr ''type'', PyStr ''string''),
                           (PyStr ''description'', PyStr ''The topic to search for'')]),
                (PyStr ''max_results'',
                   PyDict [(PyStr ''type'', PyStr ''integer''),
                           (PyStr ''description'', PyStr ''Maximum number of results to retrieve''),
                           (PyStr ''default'', PyInt 5)])]),
          (''required'', PyList [PyStr ''topic''])]\<rparr>,
      \<lparr>fd_name = ''extract_info'',
       fd_description = Some ''Search for information about a specific paper.'',
       fd_parameters =
         [(''type'', PyStr ''object''),
          (''properties'',
             PyDict
               [(PyStr ''paper_id'',
                   PyDict [(PyStr ''type'', PyStr ''string''),
                           (PyStr ''description'', PyStr ''The ID of the paper to look for.'')])]),
          (''required'', PyList [PyStr ''paper_id''])]\<rparr>]"

text \<open>
  The model service's response, as far as the code reads it: the candidates, each with
  the parts of its content, each part with an optional function call; and the
  \<^verbatim>\<open>text\<close> property (the field \<open>response_text\<close>). A function call object is truthy, \<open>None\<close> is not.
\<close>

datatype function_call = FunctionCall (fc_name: string) (fc_args: args)

datatype part = Part "function_call option"

record response =
  candidates :: "part list list"
  response_text :: pyval

text \<open>
  \<^verbatim>\<open>response.candidates[0].content.parts[0].function_call\<close>: each subscript raises
  \<open>IndexError\<close> on an empty list.
\<close>

definition first_function_call :: "response \<Rightarrow> exn + function_call option" where
  "first_function_call r =
     (case candidates r of
        [] \<Rightarrow> Inl IndexError
      | parts # _ \<Rightarrow>
          (case parts of
             [] \<Rightarrow> Inl IndexError
           | Part fc # _ \<Rightarrow> Inr fc))"

text \<open>The result of \<^verbatim>\<open>session.call_tool\<close>: a list of content parts, of which only a text part has \<^verbatim>\<open>.text\<close>.\<close>

datatype content_part = TextContent string | OtherContent

record call_tool_result =
  content :: "content_part list"
  isError :: bool

definition first_text :: "call_tool_result \<Rightarrow> exn + string" where
  "first_text result =
     (case content result of
        [] \<Rightarrow> Inl IndexError
      | TextContent t # _ \<Rightarrow> Inr t
      | OtherContent # _ \<Rightarrow> Inl AttributeError)"

text \<open>
  What the outside world answers during one turn: the environment variable
  \<^verbatim>\<open>API_KEY\<close>, the model service, the two local handlers (argument binding included)
  and the tool host behind \<^verbatim>\<open>session.call_tool\<close>. Every turn of a script carries its
  own world, since the collaborators have state of their own.
\<close>

record world =
  api_key :: "string option"
  generate_content :: "tool list \<Rightarrow> string \<Rightarrow> exn + response"
  search_papers :: handler
  extract_info :: handler
  call_tool :: "string \<Rightarrow> args \<Rightarrow> exn + call_tool_result"

text \<open>
  Standard input: each \<^verbatim>\<open>input()\<close> consumes one entry, a line or a keyboard interrupt;
  once the list is used up, every further \<^verbatim>\<open>input()\<close> raises \<open>EOFError\<close>.
\<close>

datatype turn = Line string world | Interrupt

text \<open>
  The observable trace. \<open>Print v\<close> is \<^verbatim>\<open>print(v)\<close> of the value \<open>v\<close>;
  \<open>Print_arguments a\<close> is \<^verbatim>\<open>print(f"Arguments: {a}")\<close>; \<open>Print_error p e\<close> is
  \<^verbatim>\<open>print(f"{p}{str(e)}")\<close>; \<open>Print_connected names\<close> is
  \<^verbatim>\<open>print("\nConnected to server with tools:", names)\<close>; the other events are the calls to the collaborators and
  the entries and exits of the two context managers of the remote variant.
\<close>

datatype event =
    Input
  | Print pyval
  | Print_arguments args
  | Print_error string exn
  | Print_connected "string list"
  | Generate_content "tool list" string
  | Call string args
  | Call_tool string args
  | Enter_stdio_client
  | Enter_ClientSession
  | Initialize
  | List_tools
  | Exit_ClientSession
  | Exit_stdio_client

text \<open>
  How a run stands: \<open>Running\<close> when the fuel ran out with the loop still going,
  \<open>Returned\<close> after a normal return, \<open>Raised e\<close> when \<open>e\<close> left the function.
\<close>

datatype status = Running | Returned | Raised exn

definition emit :: "event list \<Rightarrow> event list \<times> 'a \<Rightarrow> event list \<times> 'a" where
  "emit evs r = (evs @ fst r, snd r)"

section \<open>chatbot.py: process_query and chat_loop\<close>

text \<open>
  \<^verbatim>\<open>process_query\<close> reads the key, asks the model service and inspects the first part
  of the first candidate. On a function call it calls the handler by an
  \<^verbatim>\<open>if\<close>/\<^verbatim>\<open>elif\<close> on the two names and returns the handler's value as it is; a third
  name leaves \<^verbatim>\<open>result\<close> unassigned, so \<^verbatim>\<open>return result\<close> raises
  \<open>UnboundLocalError\<close>. Without a function call it prints the text and returns \<open>None\<close>.
\<close>

definition process_query :: "world \<Rightarrow> string \<Rightarrow> event list \<times> (exn + pyval)" where
  "process_query w query =
     (case api_key w of
        None \<Rightarrow> ([], Inl (KeyError ''API_KEY''))
      | Some _ \<Rightarrow>
          emit [Generate_content [Tool TOOLS] query]
            (case generate_content w [Tool TOOLS] query of
               Inl e \<Rightarrow> ([], Inl e)
             | Inr response \<Rightarrow>
                 (case first_function_call response of
                    Inl e \<Rightarrow> ([], Inl e)
                  | Inr None \<Rightarrow>
                      ([Print (PyStr ''No function call found in the response.''),
                        Print (response_text response)], Inr PyNone)
                  | Inr (Some function_call) \<Rightarrow>
                      emit [Print (PyStr (''Function to call: '' @ fc_name function_call)),
                            Print_arguments (fc_args function_call)]
                        (if fc_name function_call = ''search_papers''
                         then ([Call ''search_papers'' (fc_args function_call)],
                               search_papers w (fc_args function_call))
                         else if fc_name function_call = ''extract_info''
                         then ([Call ''extract_info'' (fc_args function_call)],
                               extract_info w (fc_args function_call))
                         else ([], Inl UnboundLocalError)))))"

text \<open>
  The \<^verbatim>\<open>while True\<close> loop of \<^verbatim>\<open>chat_loop\<close>, one unit of fuel for each iteration.
  \<^verbatim>\<open>except Exception\<close> catches what \<^verbatim>\<open>input\<close> and \<^verbatim>\<open>process_query\<close> raise, prints it
  and goes on; only \<^verbatim>\<open>break\<close> and an exception outside \<open>Exception\<close> leave the loop.
\<close>

fun chat_loop_while :: "nat \<Rightarrow> turn list \<Rightarrow> event list \<times> status" where
  "chat_loop_while 0 ts = ([], Running)"
| "chat_loop_while (Suc n) [] =
     emit [Input, Print_error ''\<newline> Error: '' EOFError] (chat_loop_while n [])"
| "chat_loop_while (Suc n) (Interrupt # ts) = ([Input], Raised KeyboardInterrupt)"
| "chat_loop_while (Suc n) (Line s w # ts) =
     (let query = strip s
      in if lower query = ''quit'' then ([Input], Returned)
         else
           (case process_query w query of
              (evs, Inl e) \<Rightarrow>
                if is_Exception e
                then emit (Input # evs @ [Print_error ''\<newline> Error: '' e]) (chat_loop_while n ts)
                else (Input # evs, Raised e)
            | (evs, Inr result) \<Rightarrow>
                emit (Input # evs
                      @ (if truthy result then [Print (PyStr ''Result:''), Print result] else []))
                  (chat_loop_while n ts)))"

definition chat_loop :: "nat \<Rightarrow> turn list \<Rightarrow> event list \<times> status" where
  "chat_loop n ts =
     emit [Print (PyStr ''Type your queries or 'quit' to exit.'')] (chat_loop_while n ts)"

section \<open>client.py: MCP_ChatBot\<close>

text \<open>
  \<^verbatim>\<open>MCP_ChatBot.process_query\<close>: the function call goes to the tool host through
  \<^verbatim>\<open>session.call_tool\<close>, and the text of the first content part is printed.
\<close>

definition MCP_ChatBot_process_query ::
    "tool list \<Rightarrow> world \<Rightarrow> string \<Rightarrow> event list \<times> (exn + call_tool_result option)" where
  "MCP_ChatBot_process_query available_tools w query =
     emit [Generate_content available_tools query]
       (case generate_content w available_tools query of
          Inl e \<Rightarrow> ([], Inl e)
        | Inr response \<Rightarrow>
            (case first_function_call response of
               Inl e \<Rightarrow> ([], Inl e)
             | Inr None \<Rightarrow>
                 ([Print (PyStr ''No Function called''), Print (response_text response)], Inr None)
             | Inr (Some function_call) \<Rightarrow>
                 emit [Print (PyStr (''Function to call: '' @ fc_name function_call)),
                       Print_arguments (fc_args function_call),
                       Call_tool (fc_name function_call) (fc_args function_call)]
                   (case call_tool w (fc_name function_call) (fc_args function_call) of
                      Inl e \<Rightarrow> ([], Inl e)
                    | Inr result \<Rightarrow>
                        emit [Print (PyStr ''Result:'')]
                          (case first_text result of
                             Inl e \<Rightarrow> ([], Inl e)
                           | Inr t \<Rightarrow> ([Print (PyStr t)], Inr (Some result))))))"

fun MCP_ChatBot_chat_loop_while :: "tool list \<Rightarrow> nat \<Rightarrow> turn list \<Rightarrow> event list \<times> status" where
  "MCP_ChatBot_chat_loop_while available_tools 0 ts = ([], Running)"
| "MCP_ChatBot_chat_loop_while available_tools (Suc n) [] =
     emit [Input, Print_error ''\<newline>Error: '' EOFError]
       (MCP_ChatBot_chat_loop_while available_tools n [])"
| "MCP_ChatBot_chat_loop_while available_tools (Suc n) (Interrupt # ts) =
     ([Input], Raised KeyboardInterrupt)"
| "MCP_ChatBot_chat_loop_while available_tools (Suc n) (Line s w # ts) =
     (let query = strip s
      in if lower query = ''quit'' then ([Input], Returned)
         else
           (case MCP_ChatBot_process_query available_tools w query of
              (evs, Inl e) \<Rightarrow>
                if is_Exception e
                then emit (Input # evs @ [Print_error ''\<newline>Error: '' e])
                       (MCP_ChatBot_chat_loop_while available_tools n ts)
                else (Input # evs, Raised e)
            | (evs, Inr result) \<Rightarrow>
                emit (Input # evs @ [Print (PyStr ''\<newline>'')])
                  (MCP_ChatBot_chat_loop_while available_tools n ts)))"

definition MCP_ChatBot_chat_loop :: "tool list \<Rightarrow> nat \<Rightarrow> turn list \<Rightarrow> event list \<times> status" where
  "MCP_ChatBot_chat_loop available_tools n ts =
     emit [Print (PyStr ''\<newline>MCP Chatbot Started!''),
           Print (PyStr ''Type your queries or 'quit' to exit.'')]
       (MCP_ChatBot_chat_loop_while available_tools n ts)"

text \<open>
  A tool as the host lists it, and the startup behaviour of the host: whether spawning
  it, the \<^verbatim>\<open>initialize\<close> handshake and the listing request succeed.
\<close>

record mcp_tool =
  mcp_name :: string
  mcp_description :: "string option"
  inputSchema :: args

record host =
  spawn :: "exn option"
  initialize :: "exn option"
  list_tools :: "exn + mcp_tool list"

text \<open>
  The comprehension that builds \<^verbatim>\<open>self.available_tools\<close>: one \<^verbatim>\<open>types.Tool\<close> with one
  declaration for each listed tool, the schema copied key by key except for
  \<^verbatim>\<open>additionalProperties\<close> and \<^verbatim>\<open>$schema\<close>.
\<close>

definition available_tools_of :: "mcp_tool list \<Rightarrow> tool list" where
  "available_tools_of tools =
     map (\<lambda>t. Tool [\<lparr>fd_name = mcp_name t,
                      fd_description = mcp_description t,
                      fd_parameters =
                        filter (\<lambda>(k, v). k \<notin> set [''additionalProperties'', ''$schema''])
                          (inputSchema t)\<rparr>])
       tools"

text \<open>
  \<^verbatim>\<open>connect_to_server_and_run\<close>: two nested \<^verbatim>\<open>async with\<close> blocks around the handshake,
  the listing and the chat loop. A context manager that was entered is exited once,
  however its body ends; an exception of the body goes on after the exits.
\<close>

definition connect_to_server_and_run :: "nat \<Rightarrow> host \<Rightarrow> turn list \<Rightarrow> event list \<times> status" where
  "connect_to_server_and_run n h ts =
     (case spawn h of
        Some e \<Rightarrow> ([], Raised e)
      | None \<Rightarrow>
          emit [Enter_stdio_client, Enter_ClientSession, Initialize]
            (case initialize h of
               Some e \<Rightarrow> ([Exit_ClientSession, Exit_stdio_client], Raised e)
             | None \<Rightarrow>
                 emit [List_tools]
                   (case list_tools h of
                      Inl e \<Rightarrow> ([Exit_ClientSession, Exit_stdio_client], Raised e)
                    | Inr tools \<Rightarrow>
                        emit [Print_connected (map mcp_name tools)]
                          (case MCP_ChatBot_chat_loop (available_tools_of tools) n ts of
                             (evs, Running) \<Rightarrow> (evs, Running)
                           | (evs, st) \<Rightarrow> (evs @ [Exit_ClientSession, Exit_stdio_client], st)))))"

section \<open>Worlds for the examples\<close>

text \<open>
  Responses and worlds with fixed answers, used where a property is evaluated on a
  concrete run: a response that carries one function call, a response that carries
  plain text, and a world whose model service answers \<open>g\<close>, whose two handlers answer
  \<open>r\<close> and whose tool host answers \<open>c\<close>.
\<close>

definition function_call_response :: "string \<Rightarrow> args \<Rightarrow> response" where
  "function_call_response name a =
     \<lparr>candidates = [[Part (Some (FunctionCall name a))]], response_text = PyNone\<rparr>"

definition plain_text_response :: "string \<Rightarrow> response" where
  "plain_text_response t = \<lparr>candidates = [[Part None]], response_text = PyStr t\<rparr>"

definition scripted_world ::
    "(exn + response) \<Rightarrow> (exn + pyval) \<Rightarrow> (exn + call_tool_result) \<Rightarrow> world" where
  "scripted_world g r c =
     \<lparr>api_key = Some ''key'',
      generate_content = (\<lambda>tools query. g),
      search_papers = (\<lambda>a. r),
      extract_info = (\<lambda>a. r),
      call_tool = (\<lambda>name a. c)\<rparr>"

section \<open>Properties of the encoder and of the join\<close>

lemma json_key_cases:
  "(is_json_key k \<longrightarrow> (\<exists>key. json_key k = Inr key)) \<and> (\<not> is_json_key k \<longrightarrow> json_key k = Inl TypeError)"
  by (cases k) simp_all

lemma iterencode_serializable:
  "(serializable v \<longrightarrow> (\<exists>s. iterencode level v = Inr s))
     \<and> (\<not> serializable v \<longrightarrow> iterencode level v = Inl TypeError)"
  "(serializable_list xs \<longrightarrow> (\<exists>ss. iterencode_list level xs = Inr ss))
     \<and> (\<not> serializable_list xs \<longrightarrow> iterencode_list level xs = Inl TypeError)"
  "(serializable_dict kvs \<longrightarrow> (\<exists>ss. iterencode_dict level kvs = Inr ss))
     \<and> (\<not> serializable_dict kvs \<longrightarrow> iterencode_dict level kvs = Inl TypeError)"
proof (induction level v and level xs and level kvs
       rule: iterencode_iterencode_list_iterencode_dict.induct)
  case (11 level k v kvs)
  show ?case
  proof (cases "json_key k")
    case (Inl e)
    with json_key_cases [of k] show ?thesis by auto
  next
    case key: (Inr key)
    with json_key_cases [of k] have k: "is_json_key k" by auto
    note v = "11.IH"(1) [OF key]
    show ?thesis
    proof (cases "iterencode level v")
      case (Inl e)
      with v key k show ?thesis by auto
    next
      case item: (Inr item)
      with v have sv: "serializable v" by auto
      from "11.IH"(2) [OF key item] key item k sv show ?thesis
        by (auto split: sum.splits)
    qed
  qed
qed (auto split: sum.splits)

lemma sublist_join_strings: "x \<in> set xs \<Longrightarrow> sublist x (join_strings sep xs)"
proof (induction sep xs rule: join_strings.induct)
  case (3 sep a b ys)
  show ?case
  proof (cases "x = a")
    case True
    then show ?thesis by simp
  next
    case False
    with 3 have "sublist x (join_strings sep (b # ys))" by simp
    then obtain ps ss where "join_strings sep (b # ys) = ps @ x @ ss"
      by (auto simp: sublist_def)
    then have "join_strings sep (a # b # ys) = (a @ sep @ ps) @ x @ ss" by simp
    then show ?thesis unfolding sublist_def by blast
  qed
qed simp_all

lemma iterencode_dict_items:
  "iterencode_dict level kvs = Inr items \<Longrightarrow> (k, v) \<in> set kvs \<Longrightarrow>
     \<exists>key item. json_key k = Inr key \<and> iterencode level v = Inr item
       \<and> encode_basestring_ascii key @ '': '' @ item \<in> set items"
proof (induction kvs arbitrary: items)
  case Nil
  then show ?case by simp
next
  case (Cons kv kvs)
  obtain k' v' where kv: "kv = (k', v')" by (cases kv)
  from Cons.prems(1) kv obtain key' item' items' where
    h: "json_key k' = Inr key'" "iterencode level v' = Inr item'"
       "iterencode_dict level kvs = Inr items'"
       "items = (encode_basestring_ascii key' @ '': '' @ item') # items'"
    by (auto split: sum.splits)
  show ?case
  proof (cases "(k, v) = (k', v')")
    case True
    with h show ?thesis by auto
  next
    case False
    with Cons.prems(2) kv have "(k, v) \<in> set kvs" by auto
    from Cons.IH [OF h(3) this] h(4) show ?thesis by auto
  qed
qed

lemma iterencode_dict_keys_present:
  assumes "iterencode level (PyDict kvs) = Inr s" and "(k, v) \<in> set kvs"
  shows "\<exists>key item. json_key k = Inr key \<and> iterencode (Suc level) v = Inr item
           \<and> sublist (encode_basestring_ascii key @ '': '' @ item) s"
proof -
  from assms(2) have ne: "kvs \<noteq> []" by auto
  with assms(1) obtain items where
    it: "iterencode_dict (Suc level) kvs = Inr items"
    and s: "s = ''{'' @ newline_indent (Suc level)
              @ join_strings (CHR '','' # newline_indent (Suc level)) items
              @ newline_indent level @ ''}''"
    by (auto split: sum.splits)
  from iterencode_dict_items [OF it assms(2)] obtain key item where
    k: "json_key k = Inr key" "iterencode (Suc level) v = Inr item"
       "encode_basestring_ascii key @ '': '' @ item \<in> set items"
    by blast
  have "sublist (encode_basestring_ascii key @ '': '' @ item)
          (join_strings (CHR '','' # newline_indent (Suc level)) items)"
    using k(3) by (rule sublist_join_strings)
  then obtain ps ss where
    "join_strings (CHR '','' # newline_indent (Suc level)) items
       = ps @ (encode_basestring_ascii key @ '': '' @ item) @ ss"
    unfolding sublist_def by blast
  with s have "s = (''{'' @ newline_indent (Suc level) @ ps)
                 @ (encode_basestring_ascii key @ '': '' @ item)
                 @ (ss @ newline_indent level @ ''}'')"
    by simp
  then have "sublist (encode_basestring_ascii key @ '': '' @ item) s"
    unfolding sublist_def by blast
  with k show ?thesis by blast
qed

lemma those_map_PyStr: "those (map as_str (map PyStr ss)) = Some ss"
  by (induction ss) simp_all

lemma those_map_as_str_None: "x \<in> set xs \<Longrightarrow> as_str x = None \<Longrightarrow> those (map as_str xs) = None"
  by (induction xs) (auto split: option.splits)

lemma str_join_strings: "str_join sep (map PyStr ss) = Inr (join_strings sep ss)"
  unfolding str_join_def those_map_PyStr by simp

lemma str_join_TypeError: "x \<in> set xs \<Longrightarrow> as_str x = None \<Longrightarrow> str_join sep xs = Inl TypeError"
  by (simp add: str_join_def those_map_as_str_None)

section \<open>Properties of execute_tool\<close>

text \<open>
  C1, as the code has it. The handler bound to the name returned the value \<open>v\<close>. Then
  \<^verbatim>\<open>execute_tool\<close> has one outcome, fixed by the shape of \<open>v\<close>: \<open>None\<close> gives the fixed
  message; a list of strings gives the strings joined by commas in their order
  (\<open>["a","b"]\<close> gives \<open>"a,b"\<close>); a list with an element that is not a string raises
  \<open>TypeError\<close>; a dict that \<open>json\<close> can serialise gives its \<open>indent=2\<close> serialisation,
  in which every key occurs, quoted and followed by a colon, a space and its value; a dict that
  \<open>json\<close> cannot serialise raises \<open>TypeError\<close>; every other value gives its \<open>str()\<close>.
\<close>

theorem execute_tool_normalization:
  assumes "mapping_tool_function tool_name = Some f" and "f tool_args = Inr v"
  shows "(v = PyNone \<longrightarrow>
           execute_tool tool_name tool_args mapping_tool_function = Inr no_results_message)
       \<and> (\<forall>ss. v = PyList (map PyStr ss) \<longrightarrow>
           execute_tool tool_name tool_args mapping_tool_function = Inr (join_strings '','' ss))
       \<and> (v = PyList [PyStr ''a'', PyStr ''b''] \<longrightarrow>
           execute_tool tool_name tool_args mapping_tool_function = Inr ''a,b'')
       \<and> (\<forall>xs. v = PyList xs \<and> (\<exists>x \<in> set xs. as_str x = None) \<longrightarrow>
           execute_tool tool_name tool_args mapping_tool_function = Inl TypeError)
       \<and> (\<forall>kvs. v = PyDict kvs \<and> serializable v \<longrightarrow>
           (\<exists>s. execute_tool tool_name tool_args mapping_tool_function = Inr s
              \<and> json_dumps_indent2 v = Inr s
              \<and> (\<forall>(k, x) \<in> set kvs. \<exists>key item.
                    json_key k = Inr key \<and> iterencode 1 x = Inr item
                    \<and> sublist (encode_basestring_ascii key @ '': '' @ item) s)))
       \<and> (\<forall>kvs. v = PyDict kvs \<and> \<not> serializable v \<longrightarrow>
           execute_tool tool_name tool_args mapping_tool_function = Inl TypeError)
       \<and> (\<forall>b. v = PyBool b \<longrightarrow>
           execute_tool tool_name tool_args mapping_tool_function = Inr (str_bool b))
       \<and> (\<forall>i. v = PyInt i \<longrightarrow>
           execute_tool tool_name tool_args mapping_tool_function = Inr (str_int i))
       \<and> (\<forall>s. v = PyStr s \<longrightarrow>
           execute_tool tool_name tool_args mapping_tool_function = Inr s)
       \<and> (\<forall>s. v = PyObj s \<longrightarrow>
           execute_tool tool_name tool_args mapping_tool_function = Inr s)"
proof -
  have ex: "execute_tool tool_name tool_args mapping_tool_function = normalize_result v"
    using assms by (simp add: execute_tool_def)
  have strs: "\<forall>ss. v = PyList (map PyStr ss) \<longrightarrow> normalize_result v = Inr (join_strings '','' ss)"
    by (simp add: str_join_strings)
  have ab: "v = PyList [PyStr ''a'', PyStr ''b''] \<longrightarrow> normalize_result v = Inr ''a,b''"
    by (simp add: str_join_def)
  have bad: "\<forall>xs. v = PyList xs \<and> (\<exists>x \<in> set xs. as_str x = None) \<longrightarrow>
               normalize_result v = Inl TypeError"
    by (auto simp: str_join_TypeError)
  have dict: "\<forall>kvs. v = PyDict kvs \<and> serializable v \<longrightarrow>
           (\<exists>s. normalize_result v = Inr s
              \<and> json_dumps_indent2 v = Inr s
              \<and> (\<forall>(k, x) \<in> set kvs. \<exists>key item.
                    json_key k = Inr key \<and> iterencode 1 x = Inr item
                    \<and> sublist (encode_basestring_ascii key @ '': '' @ item) s))"
  proof (intro allI impI)
    fix kvs
    assume a: "v = PyDict kvs \<and> serializable v"
    with iterencode_serializable(1) [of v 0] obtain s where s: "iterencode 0 (PyDict kvs) = Inr s"
      by auto
    have "\<forall>(k, x) \<in> set kvs. \<exists>key item.
            json_key k = Inr key \<and> iterencode 1 x = Inr item
            \<and> sublist (encode_basestring_ascii key @ '': '' @ item) s"
      using iterencode_dict_keys_present [OF s] by auto
    with a s show "\<exists>s. normalize_result v = Inr s
              \<and> json_dumps_indent2 v = Inr s
              \<and> (\<forall>(k, x) \<in> set kvs. \<exists>key item.
                    json_key k = Inr key \<and> iterencode 1 x = Inr item
                    \<and> sublist (encode_basestring_ascii key @ '': '' @ item) s)"
      by (simp add: json_dumps_indent2_def)
  qed
  have nodict: "\<forall>kvs. v = PyDict kvs \<and> \<not> serializable v \<longrightarrow> normalize_result v = Inl TypeError"
    using iterencode_serializable(1) [of v 0] by (auto simp: json_dumps_indent2_def)
  show ?thesis
    unfolding ex using strs ab bad dict nodict by simp
qed

text \<open>
  The theorem at six handlers: \<open>None\<close>, two strings, a string and an integer, a dict
  with a string key and an integer key, a dict holding an object, and a string.
\<close>

theorem execute_tool_normalization_witness:
  "execute_tool ''t'' [] [''t'' \<mapsto> (\<lambda>a. Inr PyNone)] = Inr no_results_message
   \<and> execute_tool ''t'' [] [''t'' \<mapsto> (\<lambda>a. Inr (PyList [PyStr ''a'', PyStr ''b'']))] = Inr ''a,b''
   \<and> execute_tool ''t'' [] [''t'' \<mapsto> (\<lambda>a. Inr (PyList [PyStr ''a'', PyInt 1]))] = Inl TypeError
   \<and> (\<exists>s. execute_tool ''t'' [] [''t'' \<mapsto> (\<lambda>a. Inr (PyDict [(PyStr ''k'', PyNone), (PyInt 2, PyList [])]))]
            = Inr s
          \<and> sublist (encode_basestring_ascii ''k'' @ '': null'') s
          \<and> sublist (encode_basestring_ascii (str_int 2) @ '': []'') s)
   \<and> execute_tool ''t'' [] [''t'' \<mapsto> (\<lambda>a. Inr (PyDict [(PyStr ''k'', PyObj ''o'')]))] = Inl TypeError
   \<and> execute_tool ''t'' [] [''t'' \<mapsto> (\<lambda>a. Inr (PyStr ''no paper''))] = Inr ''no paper''"
proof -
  have 1: "execute_tool ''t'' [] [''t'' \<mapsto> (\<lambda>a. Inr PyNone)] = Inr no_results_message"
    using execute_tool_normalization
            [of "[''t'' \<mapsto> (\<lambda>a. Inr PyNone)]" "''t''" "\<lambda>a. Inr PyNone" "[]" PyNone]
    by simp
  have 2: "execute_tool ''t'' [] [''t'' \<mapsto> (\<lambda>a. Inr (PyList [PyStr ''a'', PyStr ''b'']))] = Inr ''a,b''"
    using execute_tool_normalization
            [of "[''t'' \<mapsto> (\<lambda>a. Inr (PyList [PyStr ''a'', PyStr ''b'']))]" "''t''"
                "\<lambda>a. Inr (PyList [PyStr ''a'', PyStr ''b''])" "[]" "PyList [PyStr ''a'', PyStr ''b'']"]
    by simp
  have 3: "execute_tool ''t'' [] [''t'' \<mapsto> (\<lambda>a. Inr (PyList [PyStr ''a'', PyInt 1]))] = Inl TypeError"
    using execute_tool_normalization
            [of "[''t'' \<mapsto> (\<lambda>a. Inr (PyList [PyStr ''a'', PyInt 1]))]" "''t''"
                "\<lambda>a. Inr (PyList [PyStr ''a'', PyInt 1])" "[]" "PyList [PyStr ''a'', PyInt 1]"]
    by simp
  have 4: "\<exists>s. execute_tool ''t'' [] [''t'' \<mapsto> (\<lambda>a. Inr (PyDict [(PyStr ''k'', PyNone), (PyInt 2, PyList [])]))]
            = Inr s
          \<and> sublist (encode_basestring_ascii ''k'' @ '': null'') s
          \<and> sublist (encode_basestring_ascii (str_int 2) @ '': []'') s"
    using execute_tool_normalization
            [of "[''t'' \<mapsto> (\<lambda>a. Inr (PyDict [(PyStr ''k'', PyNone), (PyInt 2, PyList [])]))]" "''t''"
                "\<lambda>a. Inr (PyDict [(PyStr ''k'', PyNone), (PyInt 2, PyList [])])" "[]"
                "PyDict [(PyStr ''k'', PyNone), (PyInt 2, PyList [])]"]
    by auto
  have 5: "execute_tool ''t'' [] [''t'' \<mapsto> (\<lambda>a. Inr (PyDict [(PyStr ''k'', PyObj ''o'')]))] = Inl TypeError"
    using execute_tool_normalization
            [of "[''t'' \<mapsto> (\<lambda>a. Inr (PyDict [(PyStr ''k'', PyObj ''o'')]))]" "''t''"
                "\<lambda>a. Inr (PyDict [(PyStr ''k'', PyObj ''o'')])" "[]" "PyDict [(PyStr ''k'', PyObj ''o'')]"]
    by simp
  have 6: "execute_tool ''t'' [] [''t'' \<mapsto> (\<lambda>a. Inr (PyStr ''no paper''))] = Inr ''no paper''"
    using execute_tool_normalization
            [of "[''t'' \<mapsto> (\<lambda>a. Inr (PyStr ''no paper''))]" "''t''"
                "\<lambda>a. Inr (PyStr ''no paper'')" "[]" "PyStr ''no paper''"]
    by simp
  from 1 2 3 4 5 6 show ?thesis by blast
qed

text \<open>
  C1 as stated fails: a handler that returns the list \<open>[1, 2]\<close> gets no text at all,
  neither the joined elements nor the list's string conversion, since \<^verbatim>\<open>",".join\<close>
  raises \<open>TypeError\<close>.
\<close>

theorem execute_tool_not_total_counterexample:
  "execute_tool ''search_papers'' [(''topic'', PyStr ''x'')]
     [''search_papers'' \<mapsto> (\<lambda>a. Inr (PyList [PyInt 1, PyInt 2]))] = Inl TypeError"
  by (simp add: execute_tool_def str_join_def)

lemma digit_char_not_dot: "d < 10 \<Longrightarrow> digit_char d \<noteq> CHR ''.''"
proof
  assume d: "d < 10" and "digit_char d = CHR ''.''"
  then have "(of_char (char_of (48 + d)) :: nat) = of_char (CHR ''.'')"
    by (simp add: digit_char_def)
  with d show False by simp
qed

lemma last_str_nat: "str_nat n \<noteq> [] \<and> last (str_nat n) = digit_char (n mod 10)"
  by (subst (1 2) str_nat.simps) simp

lemma str_int_not_message: "str_int i \<noteq> no_results_message"
proof
  assume a: "str_int i = no_results_message"
  define m where "m = (if i < 0 then nat (- i) else nat i)"
  have "str_int i = (if i < 0 then CHR ''-'' # str_nat m else str_nat m)"
    by (simp add: str_int_def m_def)
  then have "last (str_int i) = digit_char (m mod 10)"
    using last_str_nat [of m] by simp
  moreover have "last no_results_message = CHR ''.''"
    by (simp add: no_results_message_def)
  ultimately have "digit_char (m mod 10) = CHR ''.''" using a by simp
  with digit_char_not_dot [of "m mod 10"] show False by simp
qed

lemma no_results_message_nonempty: "no_results_message \<noteq> []" "[] \<noteq> no_results_message"
  by (simp_all add: no_results_message_def)

lemma iterencode_dict_not_message: "iterencode level (PyDict kvs) \<noteq> Inr no_results_message"
  by (auto simp: no_results_message_def split: sum.splits)

lemma those_as_str_Some: "those (map as_str xs) = Some ss \<Longrightarrow> xs = map PyStr ss"
proof (induction xs arbitrary: ss)
  case Nil
  then show ?case by simp
next
  case (Cons x xs)
  then show ?case by (cases x) (auto split: option.splits)
qed

lemma normalize_result_message:
  assumes "normalize_result v = Inr no_results_message" and "v \<noteq> PyNone"
  shows "v = PyStr no_results_message \<or> v = PyObj no_results_message
         \<or> (\<exists>ss. v = PyList (map PyStr ss) \<and> join_strings '','' ss = no_results_message)"
proof (cases v)
  case (PyBool b)
  with assms show ?thesis by (simp add: str_bool_def no_results_message_def split: if_splits)
next
  case (PyInt i)
  with assms str_int_not_message show ?thesis by simp
next
  case (PyList xs)
  with assms show ?thesis
    by (auto simp: str_join_def split: option.splits dest: those_as_str_Some)
next
  case (PyDict kvs)
  with assms iterencode_dict_not_message show ?thesis by (simp add: json_dumps_indent2_def)
qed (use assms in simp_all)

lemma normalize_result_falsy:
  "\<not> truthy v \<Longrightarrow> (normalize_result v = Inr no_results_message) = (v = PyNone)"
proof (cases v)
  case (PyInt i)
  assume "\<not> truthy v"
  with PyInt str_int_not_message show ?thesis by simp
qed (auto simp: str_bool_def no_results_message_def str_join_def json_dumps_indent2_def)

text \<open>
  C9. A handler that returns the empty list gets the empty string, the join of no
  elements, and not the fixed message; a handler that returns the empty string gets
  the same text, so the two cannot be told apart. The fixed message is what \<open>None\<close>
  gets: of the empty (falsy) values, \<open>None\<close> is the only one that yields it, and a
  value other than \<open>None\<close> yields that text only when the text is the value's own (a
  string or an object's \<open>str()\<close> equal to it, or strings that join to it).
\<close>

theorem execute_tool_empty_list:
  assumes "mapping_tool_function tool_name = Some f" and "f tool_args = Inr v"
  shows "(v = PyList [] \<longrightarrow>
            execute_tool tool_name tool_args mapping_tool_function = Inr ''''
            \<and> execute_tool tool_name tool_args mapping_tool_function \<noteq> Inr no_results_message)
       \<and> (v = PyStr '''' \<longrightarrow> execute_tool tool_name tool_args mapping_tool_function = Inr '''')
       \<and> (v = PyNone \<longrightarrow>
            execute_tool tool_name tool_args mapping_tool_function = Inr no_results_message)
       \<and> (\<not> truthy v \<longrightarrow>
            (execute_tool tool_name tool_args mapping_tool_function = Inr no_results_message)
              = (v = PyNone))
       \<and> (execute_tool tool_name tool_args mapping_tool_function = Inr no_results_message
            \<and> v \<noteq> PyNone \<longrightarrow>
            v = PyStr no_results_message \<or> v = PyObj no_results_message
            \<or> (\<exists>ss. v = PyList (map PyStr ss) \<and> join_strings '','' ss = no_results_message))"
proof -
  have ex: "execute_tool tool_name tool_args mapping_tool_function = normalize_result v"
    using assms by (simp add: execute_tool_def)
  have 1: "v = PyList [] \<longrightarrow> normalize_result v = Inr '''' \<and> normalize_result v \<noteq> Inr no_results_message"
    by (simp add: str_join_def no_results_message_def)
  have 4: "\<not> truthy v \<longrightarrow> (normalize_result v = Inr no_results_message) = (v = PyNone)"
    by (simp add: normalize_result_falsy)
  have 5: "normalize_result v = Inr no_results_message \<and> v \<noteq> PyNone \<longrightarrow>
            v = PyStr no_results_message \<or> v = PyObj no_results_message
            \<or> (\<exists>ss. v = PyList (map PyStr ss) \<and> join_strings '','' ss = no_results_message)"
    using normalize_result_message by blast
  show ?thesis unfolding ex using 1 4 5 by (simp add: no_results_message_nonempty)
qed

text \<open>The theorem at a handler that returns \<open>[]\<close> and at one that returns \<open>None\<close>.\<close>

theorem execute_tool_empty_list_witness:
  "execute_tool ''search_papers'' [(''topic'', PyStr ''x'')]
     [''search_papers'' \<mapsto> (\<lambda>a. Inr (PyList []))] = Inr ''''
   \<and> execute_tool ''search_papers'' [(''topic'', PyStr ''x'')]
       [''search_papers'' \<mapsto> (\<lambda>a. Inr (PyList []))] \<noteq> Inr no_results_message
   \<and> execute_tool ''search_papers'' [(''topic'', PyStr ''x'')]
       [''search_papers'' \<mapsto> (\<lambda>a. Inr PyNone)] = Inr no_results_message"
proof -
  have 1: "execute_tool ''search_papers'' [(''topic'', PyStr ''x'')]
     [''search_papers'' \<mapsto> (\<lambda>a. Inr (PyList []))] = Inr ''''
   \<and> execute_tool ''search_papers'' [(''topic'', PyStr ''x'')]
       [''search_papers'' \<mapsto> (\<lambda>a. Inr (PyList []))] \<noteq> Inr no_results_message"
    using execute_tool_empty_list
      [of "[''search_papers'' \<mapsto> (\<lambda>a. Inr (PyList []))]" "''search_papers''"
          "\<lambda>a. Inr (PyList [])" "[(''topic'', PyStr ''x'')]" "PyList []"]
    by (simp add: no_results_message_nonempty)
  have 2: "execute_tool ''search_papers'' [(''topic'', PyStr ''x'')]
       [''search_papers'' \<mapsto> (\<lambda>a. Inr PyNone)] = Inr no_results_message"
    using execute_tool_empty_list
      [of "[''search_papers'' \<mapsto> (\<lambda>a. Inr PyNone)]" "''search_papers''"
          "\<lambda>a. Inr PyNone" "[(''topic'', PyStr ''x'')]" "PyNone"]
    by simp
  from 1 2 show ?thesis by blast
qed

section \<open>Properties of the chat loops\<close>

lemma emit_simps [simp]:
  "emit evs (evs', st) = (evs @ evs', st)"
  "fst (emit evs r) = evs @ fst r"
  "snd (emit evs r) = snd r"
  by (simp_all add: emit_def)

lemma emit_emit: "emit evs (emit evs' r) = emit (evs @ evs') r"
  by (simp add: emit_def)

lemma chat_loop_while_quit:
  "lower (strip s) = ''quit'' \<Longrightarrow> chat_loop_while (Suc n) (Line s w # ts) = ([Input], Returned)"
  by simp

lemma chat_loop_while_caught:
  "lower (strip s) \<noteq> ''quit'' \<Longrightarrow> process_query w (strip s) = (evs, Inl e) \<Longrightarrow> is_Exception e \<Longrightarrow>
     chat_loop_while (Suc n) (Line s w # ts)
       = emit (Input # evs @ [Print_error ''\<newline> Error: '' e]) (chat_loop_while n ts)"
  by simp

lemma chat_loop_while_result:
  "lower (strip s) \<noteq> ''quit'' \<Longrightarrow> process_query w (strip s) = (evs, Inr result) \<Longrightarrow>
     chat_loop_while (Suc n) (Line s w # ts)
       = emit (Input # evs
               @ (if truthy result then [Print (PyStr ''Result:''), Print result] else []))
           (chat_loop_while n ts)"
  by simp

lemma MCP_ChatBot_chat_loop_while_quit:
  "lower (strip s) = ''quit'' \<Longrightarrow>
     MCP_ChatBot_chat_loop_while tools (Suc n) (Line s w # ts) = ([Input], Returned)"
  by simp

lemma MCP_ChatBot_chat_loop_while_caught:
  "lower (strip s) \<noteq> ''quit'' \<Longrightarrow> MCP_ChatBot_process_query tools w (strip s) = (evs, Inl e) \<Longrightarrow>
   is_Exception e \<Longrightarrow>
     MCP_ChatBot_chat_loop_while tools (Suc n) (Line s w # ts)
       = emit (Input # evs @ [Print_error ''\<newline>Error: '' e])
           (MCP_ChatBot_chat_loop_while tools n ts)"
  by simp

lemma chat_loop_while_Raised:
  "snd (chat_loop_while n ts) = Raised e \<Longrightarrow> \<not> is_Exception e"
proof (induction n ts rule: chat_loop_while.induct)
  case (4 n s w ts)
  then show ?case
    by (auto simp: Let_def split: if_splits prod.splits sum.splits)
qed simp_all

lemma MCP_ChatBot_chat_loop_while_Raised:
  "snd (MCP_ChatBot_chat_loop_while tools n ts) = Raised e \<Longrightarrow> \<not> is_Exception e"
proof (induction tools n ts rule: MCP_ChatBot_chat_loop_while.induct)
  case (4 tools n s w ts)
  then show ?case
    by (auto simp: Let_def split: if_splits prod.splits sum.splits)
qed simp_all

lemma connect_to_server_and_run_Raised:
  assumes "snd (connect_to_server_and_run n h ts) = Raised e" and "is_Exception e"
  shows "spawn h = Some e \<or> initialize h = Some e \<or> list_tools h = Inl e"
proof (cases "spawn h")
  case (Some e')
  with assms show ?thesis by (simp add: connect_to_server_and_run_def)
next
  case None
  note sp = None
  show ?thesis
  proof (cases "initialize h")
    case (Some e')
    with assms sp show ?thesis by (simp add: connect_to_server_and_run_def)
  next
    case None
    note ini = None
    show ?thesis
    proof (cases "list_tools h")
      case (Inl e')
      with assms sp ini show ?thesis by (simp add: connect_to_server_and_run_def)
    next
      case (Inr tools)
      obtain evs st where l: "MCP_ChatBot_chat_loop_while (available_tools_of tools) n ts = (evs, st)"
        by (cases "MCP_ChatBot_chat_loop_while (available_tools_of tools) n ts")
      with assms(1) sp ini Inr have "st = Raised e"
        by (cases st) (simp_all add: connect_to_server_and_run_def MCP_ChatBot_chat_loop_def)
      with l MCP_ChatBot_chat_loop_while_Raised [of "available_tools_of tools" n ts e] assms(2)
      show ?thesis by simp
    qed
  qed
qed

lemma process_query_function_call:
  assumes "api_key w = Some k" and "generate_content w [Tool TOOLS] q = Inr r"
    and "first_function_call r = Inr (Some fc)"
  shows "process_query w q =
           emit [Generate_content [Tool TOOLS] q,
                 Print (PyStr (''Function to call: '' @ fc_name fc)),
                 Print_arguments (fc_args fc)]
             (if fc_name fc = ''search_papers''
              then ([Call ''search_papers'' (fc_args fc)], search_papers w (fc_args fc))
              else if fc_name fc = ''extract_info''
              then ([Call ''extract_info'' (fc_args fc)], extract_info w (fc_args fc))
              else ([], Inl UnboundLocalError))"
  using assms by (simp add: process_query_def emit_def)

lemma process_query_plain_text:
  assumes "api_key w = Some k" and "generate_content w [Tool TOOLS] q = Inr r"
    and "first_function_call r = Inr None"
  shows "process_query w q =
           ([Generate_content [Tool TOOLS] q,
             Print (PyStr ''No function call found in the response.''),
             Print (response_text r)], Inr PyNone)"
  using assms by (simp add: process_query_def)

lemma process_query_dispatches:
  "api_key w = Some k \<Longrightarrow> \<exists>evs. fst (process_query w q) = Generate_content [Tool TOOLS] q # evs"
  by (simp add: process_query_def)

lemma MCP_ChatBot_process_query_dispatches:
  "\<exists>evs. fst (MCP_ChatBot_process_query tools w q) = Generate_content tools q # evs"
  by (simp add: MCP_ChatBot_process_query_def)

lemma chat_loop_while_dispatches:
  assumes "lower (strip s) \<noteq> ''quit''" and "api_key w = Some k"
  shows "prefix [Input, Generate_content [Tool TOOLS] (strip s)]
           (fst (chat_loop_while (Suc n) (Line s w # ts)))"
proof -
  obtain evs r where p: "process_query w (strip s) = (evs, r)"
    by (cases "process_query w (strip s)")
  with process_query_dispatches [OF assms(2), of "strip s"] obtain evs' where
    "evs = Generate_content [Tool TOOLS] (strip s) # evs'" by auto
  with p assms(1) show ?thesis
    by (cases r) (auto simp: Let_def)
qed

lemma MCP_ChatBot_chat_loop_while_dispatches:
  assumes "lower (strip s) \<noteq> ''quit''"
  shows "prefix [Input, Generate_content tools (strip s)]
           (fst (MCP_ChatBot_chat_loop_while tools (Suc n) (Line s w # ts)))"
proof -
  obtain evs r where p: "MCP_ChatBot_process_query tools w (strip s) = (evs, r)"
    by (cases "MCP_ChatBot_process_query tools w (strip s)")
  with MCP_ChatBot_process_query_dispatches [of tools w "strip s"] obtain evs' where
    "evs = Generate_content tools (strip s) # evs'" by auto
  with p assms(1) show ?thesis
    by (cases r) (auto simp: Let_def)
qed

lemma quit_inputs:
  "lower (strip ''quit'') = ''quit''"
  "lower (strip ''QUIT'') = ''quit''"
  "lower (strip ''  quit  '') = ''quit''"
  "strip '''' = ''''"
  "strip ''quit me'' = ''quit me''"
  "lower '''' \<noteq> ''quit''"
  "lower ''quit me'' \<noteq> ''quit''"
  by code_simp+

text \<open>
  C3, as the code has it, for both chat loops. A line that is \<open>quit\<close> after \<open>strip()\<close>
  and \<open>lower()\<close> leaves the loop at once, and \<open>"quit"\<close>, \<open>"QUIT"\<close> and \<open>"  quit  "\<close> are
  such lines. Every other line is a query: its stripped text goes to the model service
  (in \<^verbatim>\<open>chatbot.py\<close> provided that \<^verbatim>\<open>API_KEY\<close> is set). The empty line and \<open>"quit me"\<close>
  are such lines, so the empty line too is dispatched, as the query \<open>""\<close>.
\<close>

theorem quit_detection:
  "(\<forall>s. lower (strip s) = ''quit'' \<longrightarrow>
        chat_loop_while (Suc n) (Line s w # ts) = ([Input], Returned)
        \<and> MCP_ChatBot_chat_loop_while tools (Suc n) (Line s w # ts) = ([Input], Returned))
   \<and> (\<forall>s \<in> set [''quit'', ''QUIT'', ''  quit  '']. lower (strip s) = ''quit'')
   \<and> (\<forall>s. lower (strip s) \<noteq> ''quit'' \<longrightarrow>
        (api_key w \<noteq> None \<longrightarrow>
           prefix [Input, Generate_content [Tool TOOLS] (strip s)]
             (fst (chat_loop_while (Suc n) (Line s w # ts))))
        \<and> prefix [Input, Generate_content tools (strip s)]
             (fst (MCP_ChatBot_chat_loop_while tools (Suc n) (Line s w # ts))))
   \<and> (\<forall>s \<in> set ['''', ''quit me'']. lower (strip s) \<noteq> ''quit'' \<and> strip s = s)"
proof -
  have 1: "\<forall>s. lower (strip s) = ''quit'' \<longrightarrow>
        chat_loop_while (Suc n) (Line s w # ts) = ([Input], Returned)
        \<and> MCP_ChatBot_chat_loop_while tools (Suc n) (Line s w # ts) = ([Input], Returned)"
    by simp
  have 2: "\<forall>s \<in> set [''quit'', ''QUIT'', ''  quit  '']. lower (strip s) = ''quit''"
    using quit_inputs by simp
  have 3: "\<forall>s. lower (strip s) \<noteq> ''quit'' \<longrightarrow>
        (api_key w \<noteq> None \<longrightarrow>
           prefix [Input, Generate_content [Tool TOOLS] (strip s)]
             (fst (chat_loop_while (Suc n) (Line s w # ts))))
        \<and> prefix [Input, Generate_content tools (strip s)]
             (fst (MCP_ChatBot_chat_loop_while tools (Suc n) (Line s w # ts)))"
    using chat_loop_while_dispatches MCP_ChatBot_chat_loop_while_dispatches by blast
  have 4: "\<forall>s \<in> set ['''', ''quit me'']. lower (strip s) \<noteq> ''quit'' \<and> strip s = s"
    using quit_inputs by simp
  from 1 2 3 4 show ?thesis by blast
qed

text \<open>The theorem on \<open>"QUIT"\<close>, \<open>"  quit  "\<close>, \<open>"quit me"\<close> and the empty line.\<close>

theorem quit_detection_witness:
  "chat_loop_while 1 [Line ''QUIT'' (scripted_world (Inr (plain_text_response ''Hello'')) (Inr PyNone) (Inl (Failure ''down'')))]
     = ([Input], Returned)
   \<and> MCP_ChatBot_chat_loop_while [] 1 [Line ''  quit  '' (scripted_world (Inr (plain_text_response ''Hello'')) (Inr PyNone) (Inl (Failure ''down'')))]
     = ([Input], Returned)
   \<and> prefix [Input, Generate_content [Tool TOOLS] ''quit me'']
        (fst (chat_loop_while 1 [Line ''quit me'' (scripted_world (Inr (plain_text_response ''Hello'')) (Inr PyNone) (Inl (Failure ''down'')))]))
   \<and> prefix [Input, Generate_content [] '''']
        (fst (MCP_ChatBot_chat_loop_while [] 1 [Line '''' (scripted_world (Inr (plain_text_response ''Hello'')) (Inr PyNone) (Inl (Failure ''down'')))]))"
proof -
  have k: "api_key (scripted_world (Inr (plain_text_response ''Hello'')) (Inr PyNone) (Inl (Failure ''down''))) \<noteq> None"
    by (simp add: scripted_world_def)
  have m: "''QUIT'' \<in> set [''quit'', ''QUIT'', ''  quit  '']"
          "''  quit  '' \<in> set [''quit'', ''QUIT'', ''  quit  '']"
          "''quit me'' \<in> set ['''', ''quit me'']" "'''' \<in> set ['''', ''quit me'']"
    by simp_all
  note t = quit_detection
             [of 0 "scripted_world (Inr (plain_text_response ''Hello'')) (Inr PyNone) (Inl (Failure ''down''))"
                 "[]" "[]"]
  from t m k show ?thesis
    unfolding One_nat_def by metis
qed

text \<open>
  C3 as stated fails on the empty line: the loop does not prompt again at once, it
  sends the empty query to the model service and prints the answer.
\<close>

theorem empty_input_is_dispatched_counterexample:
  "chat_loop_while 2
     [Line '''' (scripted_world (Inr (plain_text_response ''Hello'')) (Inr PyNone) (Inl (Failure ''down''))),
      Line ''quit'' (scripted_world (Inr (plain_text_response ''Hello'')) (Inr PyNone) (Inl (Failure ''down'')))]
   = ([Input,
       Generate_content [Tool TOOLS] '''',
       Print (PyStr ''No function call found in the response.''),
       Print (PyStr ''Hello''),
       Input], Returned)"
proof -
  have "chat_loop_while (Suc (Suc 0))
     [Line '''' (scripted_world (Inr (plain_text_response ''Hello'')) (Inr PyNone) (Inl (Failure ''down''))),
      Line ''quit'' (scripted_world (Inr (plain_text_response ''Hello'')) (Inr PyNone) (Inl (Failure ''down'')))]
   = ([Input,
       Generate_content [Tool TOOLS] '''',
       Print (PyStr ''No function call found in the response.''),
       Print (PyStr ''Hello''),
       Input], Returned)"
    by (simp add: quit_inputs process_query_def scripted_world_def plain_text_response_def
                  first_function_call_def)
  then show ?thesis by (simp add: numeral_2_eq_2)
qed

text \<open>
  C4. In both chat loops an exception of class \<open>Exception\<close> that \<^verbatim>\<open>process_query\<close> raises
  is printed as an error message and the loop goes on with the next \<^verbatim>\<open>input\<close>. A failure
  of the model service and a fault of \<^verbatim>\<open>session.call_tool\<close> are such exceptions. Hence
  no exception of class \<open>Exception\<close> ever leaves \<^verbatim>\<open>chat_loop\<close>, and one that leaves
  \<^verbatim>\<open>connect_to_server_and_run\<close> comes from the startup: spawning the host, the
  \<^verbatim>\<open>initialize\<close> handshake or the listing of the tools, each of which ends the run
  before the first query.
\<close>

theorem per_turn_errors_are_caught:
  "(\<forall>evs e. lower (strip s) \<noteq> ''quit'' \<and> process_query w (strip s) = (evs, Inl e)
        \<and> is_Exception e \<longrightarrow>
        chat_loop_while (Suc n) (Line s w # ts)
          = emit (Input # evs @ [Print_error ''\<newline> Error: '' e]) (chat_loop_while n ts))
   \<and> (\<forall>evs e. lower (strip s) \<noteq> ''quit''
        \<and> MCP_ChatBot_process_query tools w (strip s) = (evs, Inl e) \<and> is_Exception e \<longrightarrow>
        MCP_ChatBot_chat_loop_while tools (Suc n) (Line s w # ts)
          = emit (Input # evs @ [Print_error ''\<newline>Error: '' e])
              (MCP_ChatBot_chat_loop_while tools n ts))
   \<and> (\<forall>k e. api_key w = Some k \<and> generate_content w [Tool TOOLS] q = Inl e \<longrightarrow>
        process_query w q = ([Generate_content [Tool TOOLS] q], Inl e))
   \<and> (\<forall>e. generate_content w tools q = Inl e \<longrightarrow>
        MCP_ChatBot_process_query tools w q = ([Generate_content tools q], Inl e))
   \<and> (\<forall>r fc e. generate_content w tools q = Inr r \<and> first_function_call r = Inr (Some fc)
        \<and> call_tool w (fc_name fc) (fc_args fc) = Inl e \<longrightarrow>
        snd (MCP_ChatBot_process_query tools w q) = Inl e)
   \<and> (\<forall>e. snd (chat_loop n ts) = Raised e \<longrightarrow> \<not> is_Exception e)
   \<and> (\<forall>e. snd (connect_to_server_and_run n h ts) = Raised e \<and> is_Exception e \<longrightarrow>
        spawn h = Some e \<or> initialize h = Some e \<or> list_tools h = Inl e)
   \<and> (\<forall>e. spawn h = None \<and> initialize h = Some e \<longrightarrow>
        connect_to_server_and_run n h ts
          = ([Enter_stdio_client, Enter_ClientSession, Initialize,
              Exit_ClientSession, Exit_stdio_client], Raised e))
   \<and> (\<forall>e. spawn h = None \<and> initialize h = None \<and> list_tools h = Inl e \<longrightarrow>
        connect_to_server_and_run n h ts
          = ([Enter_stdio_client, Enter_ClientSession, Initialize, List_tools,
              Exit_ClientSession, Exit_stdio_client], Raised e))"
proof -
  have 1: "\<forall>evs e. lower (strip s) \<noteq> ''quit'' \<and> process_query w (strip s) = (evs, Inl e)
        \<and> is_Exception e \<longrightarrow>
        chat_loop_while (Suc n) (Line s w # ts)
          = emit (Input # evs @ [Print_error ''\<newline> Error: '' e]) (chat_loop_while n ts)"
    using chat_loop_while_caught by blast
  have 2: "\<forall>evs e. lower (strip s) \<noteq> ''quit''
        \<and> MCP_ChatBot_process_query tools w (strip s) = (evs, Inl e) \<and> is_Exception e \<longrightarrow>
        MCP_ChatBot_chat_loop_while tools (Suc n) (Line s w # ts)
          = emit (Input # evs @ [Print_error ''\<newline>Error: '' e])
              (MCP_ChatBot_chat_loop_while tools n ts)"
    using MCP_ChatBot_chat_loop_while_caught by blast
  have 3: "\<forall>k e. api_key w = Some k \<and> generate_content w [Tool TOOLS] q = Inl e \<longrightarrow>
        process_query w q = ([Generate_content [Tool TOOLS] q], Inl e)"
    by (simp add: process_query_def)
  have 4: "\<forall>e. generate_content w tools q = Inl e \<longrightarrow>
        MCP_ChatBot_process_query tools w q = ([Generate_content tools q], Inl e)"
    by (simp add: MCP_ChatBot_process_query_def)
  have 5: "\<forall>r fc e. generate_content w tools q = Inr r \<and> first_function_call r = Inr (Some fc)
        \<and> call_tool w (fc_name fc) (fc_args fc) = Inl e \<longrightarrow>
        snd (MCP_ChatBot_process_query tools w q) = Inl e"
    by (simp add: MCP_ChatBot_process_query_def)
  have 6: "\<forall>e. snd (chat_loop n ts) = Raised e \<longrightarrow> \<not> is_Exception e"
    using chat_loop_while_Raised by (simp add: chat_loop_def)
  have 7: "\<forall>e. snd (connect_to_server_and_run n h ts) = Raised e \<and> is_Exception e \<longrightarrow>
        spawn h = Some e \<or> initialize h = Some e \<or> list_tools h = Inl e"
    using connect_to_server_and_run_Raised by blast
  have 8: "\<forall>e. spawn h = None \<and> initialize h = Some e \<longrightarrow>
        connect_to_server_and_run n h ts
          = ([Enter_stdio_client, Enter_ClientSession, Initialize,
              Exit_ClientSession, Exit_stdio_client], Raised e)"
    by (simp add: connect_to_server_and_run_def)
  have 9: "\<forall>e. spawn h = None \<and> initialize h = None \<and> list_tools h = Inl e \<longrightarrow>
        connect_to_server_and_run n h ts
          = ([Enter_stdio_client, Enter_ClientSession, Initialize, List_tools,
              Exit_ClientSession, Exit_stdio_client], Raised e)"
    by (simp add: connect_to_server_and_run_def)
  from 1 2 3 4 5 6 7 8 9 show ?thesis by blast
qed

text \<open>
  The theorem on a turn whose model service fails, a turn whose tool host fails, and a
  startup whose handshake fails.
\<close>

theorem per_turn_errors_are_caught_witness:
  "chat_loop_while 2
     [Line ''boom'' (scripted_world (Inl (Failure ''503'')) (Inr PyNone) (Inl (Failure ''down''))),
      Line ''quit'' (scripted_world (Inl (Failure ''503'')) (Inr PyNone) (Inl (Failure ''down'')))]
     = ([Input, Generate_content [Tool TOOLS] ''boom'',
         Print_error ''\<newline> Error: '' (Failure ''503''), Input], Returned)
   \<and> MCP_ChatBot_chat_loop_while [] 2
     [Line ''boom'' (scripted_world (Inr (function_call_response ''search_papers'' [])) (Inr PyNone) (Inl (Failure ''down''))),
      Line ''quit'' (scripted_world (Inr (function_call_response ''search_papers'' [])) (Inr PyNone) (Inl (Failure ''down'')))]
     = ([Input, Generate_content [] ''boom'',
         Print (PyStr ''Function to call: search_papers''), Print_arguments [],
         Call_tool ''search_papers'' [],
         Print_error ''\<newline>Error: '' (Failure ''down''), Input], Returned)
   \<and> connect_to_server_and_run 2
        \<lparr>spawn = None, initialize = Some (Failure ''handshake''), list_tools = Inr []\<rparr>
        [Line ''quit'' (scripted_world (Inl (Failure ''503'')) (Inr PyNone) (Inl (Failure ''down'')))]
     = ([Enter_stdio_client, Enter_ClientSession, Initialize,
         Exit_ClientSession, Exit_stdio_client], Raised (Failure ''handshake''))"
proof -
  let ?w = "scripted_world (Inl (Failure ''503'')) (Inr PyNone) (Inl (Failure ''down''))"
  let ?v = "scripted_world (Inr (function_call_response ''search_papers'' [])) (Inr PyNone) (Inl (Failure ''down''))"
  have s: "strip ''boom'' = ''boom''" "lower ''boom'' \<noteq> ''quit''" by code_simp+
  have p: "process_query ?w ''boom'' = ([Generate_content [Tool TOOLS] ''boom''], Inl (Failure ''503''))"
    using per_turn_errors_are_caught [where w = ?w and q = "''boom''"]
    by (simp add: scripted_world_def)
  have q: "chat_loop_while (Suc 0) [Line ''quit'' ?w] = ([Input], Returned)"
    by (simp add: quit_inputs)
  have 1: "chat_loop_while (Suc (Suc 0)) [Line ''boom'' ?w, Line ''quit'' ?w]
     = ([Input, Generate_content [Tool TOOLS] ''boom'',
         Print_error ''\<newline> Error: '' (Failure ''503''), Input], Returned)"
    using per_turn_errors_are_caught
            [where s = "''boom''" and w = ?w and n = "Suc 0" and ts = "[Line ''quit'' ?w]"] s p q
    by simp
  have p': "MCP_ChatBot_process_query [] ?v ''boom''
      = ([Generate_content [] ''boom'',
          Print (PyStr ''Function to call: search_papers''), Print_arguments [],
          Call_tool ''search_papers'' []], Inl (Failure ''down''))"
    by (simp add: MCP_ChatBot_process_query_def scripted_world_def function_call_response_def
                  first_function_call_def)
  have q': "MCP_ChatBot_chat_loop_while [] (Suc 0) [Line ''quit'' ?v] = ([Input], Returned)"
    by (simp add: quit_inputs)
  have 2: "MCP_ChatBot_chat_loop_while [] (Suc (Suc 0)) [Line ''boom'' ?v, Line ''quit'' ?v]
     = ([Input, Generate_content [] ''boom'',
         Print (PyStr ''Function to call: search_papers''), Print_arguments [],
         Call_tool ''search_papers'' [],
         Print_error ''\<newline>Error: '' (Failure ''down''), Input], Returned)"
    using per_turn_errors_are_caught
            [where s = "''boom''" and tools = "[]" and w = ?v and n = "Suc 0"
               and ts = "[Line ''quit'' ?v]"] s p' q'
    by simp
  have 3: "connect_to_server_and_run 2
        \<lparr>spawn = None, initialize = Some (Failure ''handshake''), list_tools = Inr []\<rparr>
        [Line ''quit'' ?w]
     = ([Enter_stdio_client, Enter_ClientSession, Initialize,
         Exit_ClientSession, Exit_stdio_client], Raised (Failure ''handshake''))"
    using per_turn_errors_are_caught
            [where n = 2 and ts = "[Line ''quit'' ?w]"
               and h = "\<lparr>spawn = None, initialize = Some (Failure ''handshake''), list_tools = Inr []\<rparr>"]
    by simp
  from 1 2 3 show ?thesis by (simp add: numeral_2_eq_2)
qed

text \<open>
  C5, as the code has it. When the handler bound to the name raises \<open>e\<close>,
  \<^verbatim>\<open>execute_tool\<close> raises \<open>e\<close> too: it returns no text. It is the chat loop that
  reports the failure: when one of the two handlers raises an \<open>Exception\<close> during a
  turn, the loop prints it as an error message and goes on.
\<close>

theorem handler_failure_propagates:
  "(\<forall>f. mapping_tool_function tool_name = Some f \<and> f tool_args = Inl e \<longrightarrow>
        execute_tool tool_name tool_args mapping_tool_function = Inl e)
   \<and> (\<forall>k r fc. lower (strip s) \<noteq> ''quit'' \<and> api_key w = Some k
        \<and> generate_content w [Tool TOOLS] (strip s) = Inr r
        \<and> first_function_call r = Inr (Some fc)
        \<and> ((fc_name fc = ''search_papers'' \<and> search_papers w (fc_args fc) = Inl e)
           \<or> (fc_name fc = ''extract_info'' \<and> extract_info w (fc_args fc) = Inl e))
        \<and> is_Exception e \<longrightarrow>
        chat_loop_while (Suc n) (Line s w # ts)
          = emit [Input, Generate_content [Tool TOOLS] (strip s),
                  Print (PyStr (''Function to call: '' @ fc_name fc)),
                  Print_arguments (fc_args fc),
                  Call (fc_name fc) (fc_args fc),
                  Print_error ''\<newline> Error: '' e]
              (chat_loop_while n ts))"
proof -
  have 1: "\<forall>f. mapping_tool_function tool_name = Some f \<and> f tool_args = Inl e \<longrightarrow>
        execute_tool tool_name tool_args mapping_tool_function = Inl e"
    by (simp add: execute_tool_def)
  have 2: "\<forall>k r fc. lower (strip s) \<noteq> ''quit'' \<and> api_key w = Some k
        \<and> generate_content w [Tool TOOLS] (strip s) = Inr r
        \<and> first_function_call r = Inr (Some fc)
        \<and> ((fc_name fc = ''search_papers'' \<and> search_papers w (fc_args fc) = Inl e)
           \<or> (fc_name fc = ''extract_info'' \<and> extract_info w (fc_args fc) = Inl e))
        \<and> is_Exception e \<longrightarrow>
        chat_loop_while (Suc n) (Line s w # ts)
          = emit [Input, Generate_content [Tool TOOLS] (strip s),
                  Print (PyStr (''Function to call: '' @ fc_name fc)),
                  Print_arguments (fc_args fc),
                  Call (fc_name fc) (fc_args fc),
                  Print_error ''\<newline> Error: '' e]
              (chat_loop_while n ts)"
  proof (intro allI impI, elim conjE)
    fix k r fc
    assume a: "lower (strip s) \<noteq> ''quit''" "api_key w = Some k"
      "generate_content w [Tool TOOLS] (strip s) = Inr r"
      "first_function_call r = Inr (Some fc)"
      "(fc_name fc = ''search_papers'' \<and> search_papers w (fc_args fc) = Inl e)
         \<or> (fc_name fc = ''extract_info'' \<and> extract_info w (fc_args fc) = Inl e)"
      "is_Exception e"
    from process_query_function_call [OF a(2) a(3) a(4)] a(5)
    have "process_query w (strip s)
            = ([Generate_content [Tool TOOLS] (strip s),
                Print (PyStr (''Function to call: '' @ fc_name fc)),
                Print_arguments (fc_args fc),
                Call (fc_name fc) (fc_args fc)], Inl e)"
      by auto
    from chat_loop_while_caught [OF a(1) this a(6)]
    show "chat_loop_while (Suc n) (Line s w # ts)
          = emit [Input, Generate_content [Tool TOOLS] (strip s),
                  Print (PyStr (''Function to call: '' @ fc_name fc)),
                  Print_arguments (fc_args fc),
                  Call (fc_name fc) (fc_args fc),
                  Print_error ''\<newline> Error: '' e]
              (chat_loop_while n ts)"
      by simp
  qed
  from 1 2 show ?thesis by blast
qed

text \<open>The theorem on a handler that raises, called directly and in a turn of the loop.\<close>

theorem handler_failure_propagates_witness:
  "execute_tool ''extract_info'' [(''paper_id'', PyStr ''1'')]
     [''extract_info'' \<mapsto> (\<lambda>a. Inl (Failure ''no such directory''))]
     = Inl (Failure ''no such directory'')
   \<and> chat_loop_while 2
       [Line ''about 1'' (scripted_world (Inr (function_call_response ''extract_info'' [(''paper_id'', PyStr ''1'')]))
                            (Inl (Failure ''no such directory'')) (Inl (Failure ''down''))),
        Line ''quit'' (scripted_world (Inr (function_call_response ''extract_info'' [(''paper_id'', PyStr ''1'')]))
                            (Inl (Failure ''no such directory'')) (Inl (Failure ''down'')))]
     = ([Input, Generate_content [Tool TOOLS] ''about 1'',
         Print (PyStr ''Function to call: extract_info''),
         Print_arguments [(''paper_id'', PyStr ''1'')],
         Call ''extract_info'' [(''paper_id'', PyStr ''1'')],
         Print_error ''\<newline> Error: '' (Failure ''no such directory''),
         Input], Returned)"
proof -
  let ?w = "scripted_world (Inr (function_call_response ''extract_info'' [(''paper_id'', PyStr ''1'')]))
                            (Inl (Failure ''no such directory'')) (Inl (Failure ''down''))"
  have s: "strip ''about 1'' = ''about 1''" "lower ''about 1'' \<noteq> ''quit''" by code_simp+
  have q: "chat_loop_while (Suc 0) [Line ''quit'' ?w] = ([Input], Returned)"
    by (simp add: quit_inputs)
  have 1: "execute_tool ''extract_info'' [(''paper_id'', PyStr ''1'')]
     [''extract_info'' \<mapsto> (\<lambda>a. Inl (Failure ''no such directory''))]
     = Inl (Failure ''no such directory'')"
    using handler_failure_propagates
            [where mapping_tool_function = "[''extract_info'' \<mapsto> (\<lambda>a. Inl (Failure ''no such directory''))]"
               and tool_name = "''extract_info''" and tool_args = "[(''paper_id'', PyStr ''1'')]"
               and e = "Failure ''no such directory''"]
    by simp
  have 2: "chat_loop_while (Suc (Suc 0)) [Line ''about 1'' ?w, Line ''quit'' ?w]
     = ([Input, Generate_content [Tool TOOLS] ''about 1'',
         Print (PyStr ''Function to call: extract_info''),
         Print_arguments [(''paper_id'', PyStr ''1'')],
         Call ''extract_info'' [(''paper_id'', PyStr ''1'')],
         Print_error ''\<newline> Error: '' (Failure ''no such directory''),
         Input], Returned)"
    using handler_failure_propagates
            [where s = "''about 1''" and w = ?w and n = "Suc 0" and ts = "[Line ''quit'' ?w]"
               and e = "Failure ''no such directory''"] s q
    by (simp add: scripted_world_def function_call_response_def first_function_call_def)
  from 1 2 show ?thesis by (simp add: numeral_2_eq_2)
qed

text \<open>
  C5 as stated fails: with a handler that raises, \<^verbatim>\<open>execute_tool\<close> gives the
  exception, not a text result.
\<close>

theorem execute_tool_propagates_counterexample:
  "execute_tool ''extract_info'' [(''paper_id'', PyStr ''1310.7911v2'')]
     [''extract_info'' \<mapsto> (\<lambda>a. Inl (Failure ''No such file or directory: papers''))]
   = Inl (Failure ''No such file or directory: papers'')"
  by (simp add: execute_tool_def)




text \<open>
  C10. After \<^verbatim>\<open>process_query\<close> returned a value, the loop of \<^verbatim>\<open>chatbot.py\<close> adds nothing
  to the trace when the value is falsy, and \<open>Result:\<close> with the value when it is
  truthy; in both cases it goes on. \<open>None\<close>, the empty string and the empty list are
  falsy, and a turn without a function call returns \<open>None\<close>.
\<close>

theorem result_displayed_only_when_truthy:
  "(\<forall>evs result. lower (strip s) \<noteq> ''quit'' \<and> process_query w (strip s) = (evs, Inr result)
        \<and> \<not> truthy result \<longrightarrow>
        chat_loop_while (Suc n) (Line s w # ts) = emit (Input # evs) (chat_loop_while n ts))
   \<and> (\<forall>evs result. lower (strip s) \<noteq> ''quit'' \<and> process_query w (strip s) = (evs, Inr result)
        \<and> truthy result \<longrightarrow>
        chat_loop_while (Suc n) (Line s w # ts)
          = emit (Input # evs @ [Print (PyStr ''Result:''), Print result]) (chat_loop_while n ts))
   \<and> \<not> truthy PyNone \<and> \<not> truthy (PyStr '''') \<and> \<not> truthy (PyList [])
   \<and> (\<forall>k r. api_key w = Some k \<and> generate_content w [Tool TOOLS] q = Inr r
        \<and> first_function_call r = Inr None \<longrightarrow>
        process_query w q
          = ([Generate_content [Tool TOOLS] q,
              Print (PyStr ''No function call found in the response.''),
              Print (response_text r)], Inr PyNone))"
proof -
  have 1: "\<forall>evs result. lower (strip s) \<noteq> ''quit'' \<and> process_query w (strip s) = (evs, Inr result)
        \<and> \<not> truthy result \<longrightarrow>
        chat_loop_while (Suc n) (Line s w # ts) = emit (Input # evs) (chat_loop_while n ts)"
    by simp
  have 2: "\<forall>evs result. lower (strip s) \<noteq> ''quit'' \<and> process_query w (strip s) = (evs, Inr result)
        \<and> truthy result \<longrightarrow>
        chat_loop_while (Suc n) (Line s w # ts)
          = emit (Input # evs @ [Print (PyStr ''Result:''), Print result]) (chat_loop_while n ts)"
    by simp
  have 3: "\<forall>k r. api_key w = Some k \<and> generate_content w [Tool TOOLS] q = Inr r
        \<and> first_function_call r = Inr None \<longrightarrow>
        process_query w q
          = ([Generate_content [Tool TOOLS] q,
              Print (PyStr ''No function call found in the response.''),
              Print (response_text r)], Inr PyNone)"
    using process_query_plain_text by blast
  from 1 2 3 show ?thesis by simp
qed

text \<open>
  The theorem on a handler that returns the empty list, on one that returns a
  non-empty string, and on a turn without a function call.
\<close>

theorem result_displayed_only_when_truthy_witness:
  "chat_loop_while 2
     [Line ''find x'' (scripted_world (Inr (function_call_response ''search_papers'' [(''topic'', PyStr ''x'')]))
                         (Inr (PyList [])) (Inl (Failure ''down''))),
      Line ''quit'' (scripted_world (Inr (function_call_response ''search_papers'' [(''topic'', PyStr ''x'')]))
                         (Inr (PyList [])) (Inl (Failure ''down'')))]
     = ([Input, Generate_content [Tool TOOLS] ''find x'',
         Print (PyStr ''Function to call: search_papers''),
         Print_arguments [(''topic'', PyStr ''x'')],
         Call ''search_papers'' [(''topic'', PyStr ''x'')],
         Input], Returned)
   \<and> chat_loop_while 2
     [Line ''find x'' (scripted_world (Inr (function_call_response ''extract_info'' [(''paper_id'', PyStr ''1'')]))
                         (Inr (PyStr ''no paper'')) (Inl (Failure ''down''))),
      Line ''quit'' (scripted_world (Inr (function_call_response ''extract_info'' [(''paper_id'', PyStr ''1'')]))
                         (Inr (PyStr ''no paper'')) (Inl (Failure ''down'')))]
     = ([Input, Generate_content [Tool TOOLS] ''find x'',
         Print (PyStr ''Function to call: extract_info''),
         Print_arguments [(''paper_id'', PyStr ''1'')],
         Call ''extract_info'' [(''paper_id'', PyStr ''1'')],
         Print (PyStr ''Result:''), Print (PyStr ''no paper''),
         Input], Returned)
   \<and> process_query (scripted_world (Inr (plain_text_response ''Hello'')) (Inr PyNone) (Inl (Failure ''down''))) ''hi''
     = ([Generate_content [Tool TOOLS] ''hi'',
         Print (PyStr ''No function call found in the response.''),
         Print (PyStr ''Hello'')], Inr PyNone)"
proof -
  let ?w = "scripted_world (Inr (function_call_response ''search_papers'' [(''topic'', PyStr ''x'')]))
                         (Inr (PyList [])) (Inl (Failure ''down''))"
  let ?v = "scripted_world (Inr (function_call_response ''extract_info'' [(''paper_id'', PyStr ''1'')]))
                         (Inr (PyStr ''no paper'')) (Inl (Failure ''down''))"
  let ?u = "scripted_world (Inr (plain_text_response ''Hello'')) (Inr PyNone) (Inl (Failure ''down''))"
  have s: "strip ''find x'' = ''find x''" "lower ''find x'' \<noteq> ''quit''" by code_simp+
  have qw: "chat_loop_while (Suc 0) [Line ''quit'' ?w] = ([Input], Returned)"
    by (simp add: quit_inputs)
  have qv: "chat_loop_while (Suc 0) [Line ''quit'' ?v] = ([Input], Returned)"
    by (simp add: quit_inputs)
  have pw: "process_query ?w ''find x''
      = ([Generate_content [Tool TOOLS] ''find x'',
          Print (PyStr ''Function to call: search_papers''),
          Print_arguments [(''topic'', PyStr ''x'')],
          Call ''search_papers'' [(''topic'', PyStr ''x'')]], Inr (PyList []))"
    by (simp add: process_query_def scripted_world_def function_call_response_def
                  first_function_call_def)
  have pv: "process_query ?v ''find x''
      = ([Generate_content [Tool TOOLS] ''find x'',
          Print (PyStr ''Function to call: extract_info''),
          Print_arguments [(''paper_id'', PyStr ''1'')],
          Call ''extract_info'' [(''paper_id'', PyStr ''1'')]], Inr (PyStr ''no paper''))"
    by (simp add: process_query_def scripted_world_def function_call_response_def
                  first_function_call_def)
  have 1: "chat_loop_while (Suc (Suc 0)) [Line ''find x'' ?w, Line ''quit'' ?w]
     = ([Input, Generate_content [Tool TOOLS] ''find x'',
         Print (PyStr ''Function to call: search_papers''),
         Print_arguments [(''topic'', PyStr ''x'')],
         Call ''search_papers'' [(''topic'', PyStr ''x'')],
         Input], Returned)"
    using result_displayed_only_when_truthy
            [where s = "''find x''" and w = ?w and n = "Suc 0" and ts = "[Line ''quit'' ?w]"]
          s qw pw
    by simp
  have 2: "chat_loop_while (Suc (Suc 0)) [Line ''find x'' ?v, Line ''quit'' ?v]
     = ([Input, Generate_content [Tool TOOLS] ''find x'',
         Print (PyStr ''Function to call: extract_info''),
         Print_arguments [(''paper_id'', PyStr ''1'')],
         Call ''extract_info'' [(''paper_id'', PyStr ''1'')],
         Print (PyStr ''Result:''), Print (PyStr ''no paper''),
         Input], Returned)"
    using result_displayed_only_when_truthy
            [where s = "''find x''" and w = ?v and n = "Suc 0" and ts = "[Line ''quit'' ?v]"]
          s qv pv
    by simp
  have 3: "process_query ?u ''hi''
     = ([Generate_content [Tool TOOLS] ''hi'',
         Print (PyStr ''No function call found in the response.''),
         Print (PyStr ''Hello'')], Inr PyNone)"
    using result_displayed_only_when_truthy [where w = ?u and q = "''hi''"]
    by (simp add: scripted_world_def plain_text_response_def first_function_call_def)
  from 1 2 3 show ?thesis by (simp add: numeral_2_eq_2)
qed

text \<open>
  C2 on the code. The model service asks for \<^verbatim>\<open>search_papers\<close> and the handler returns
  the list \<open>["id1","id2"]\<close>: the loop of \<^verbatim>\<open>chatbot.py\<close> prints the list itself, whereas
  \<^verbatim>\<open>execute_tool\<close>, which no function of the module calls, turns the same outcome into
  \<open>"id1,id2"\<close>.
\<close>

theorem chat_loop_displays_raw_result:
  "chat_loop_while 2
     [Line ''find x'' (scripted_world (Inr (function_call_response ''search_papers'' [(''topic'', PyStr ''x'')]))
                         (Inr (PyList [PyStr ''id1'', PyStr ''id2''])) (Inl (Failure ''down''))),
      Line ''quit'' (scripted_world (Inr (function_call_response ''search_papers'' [(''topic'', PyStr ''x'')]))
                         (Inr (PyList [PyStr ''id1'', PyStr ''id2''])) (Inl (Failure ''down'')))]
     = ([Input, Generate_content [Tool TOOLS] ''find x'',
         Print (PyStr ''Function to call: search_papers''),
         Print_arguments [(''topic'', PyStr ''x'')],
         Call ''search_papers'' [(''topic'', PyStr ''x'')],
         Print (PyStr ''Result:''), Print (PyList [PyStr ''id1'', PyStr ''id2'']),
         Input], Returned)
   \<and> execute_tool ''search_papers'' [(''topic'', PyStr ''x'')]
        [''search_papers'' \<mapsto> (\<lambda>a. Inr (PyList [PyStr ''id1'', PyStr ''id2'']))]
     = Inr ''id1,id2''"
proof -
  let ?w = "scripted_world (Inr (function_call_response ''search_papers'' [(''topic'', PyStr ''x'')]))
                         (Inr (PyList [PyStr ''id1'', PyStr ''id2''])) (Inl (Failure ''down''))"
  have s: "strip ''find x'' = ''find x''" "lower ''find x'' \<noteq> ''quit''" by code_simp+
  have 1: "chat_loop_while (Suc (Suc 0)) [Line ''find x'' ?w, Line ''quit'' ?w]
     = ([Input, Generate_content [Tool TOOLS] ''find x'',
         Print (PyStr ''Function to call: search_papers''),
         Print_arguments [(''topic'', PyStr ''x'')],
         Call ''search_papers'' [(''topic'', PyStr ''x'')],
         Print (PyStr ''Result:''), Print (PyList [PyStr ''id1'', PyStr ''id2'']),
         Input], Returned)"
    using s
    by (simp add: quit_inputs process_query_def scripted_world_def function_call_response_def
                  first_function_call_def)
  have 2: "execute_tool ''search_papers'' [(''topic'', PyStr ''x'')]
        [''search_papers'' \<mapsto> (\<lambda>a. Inr (PyList [PyStr ''id1'', PyStr ''id2'']))]
     = Inr ''id1,id2''"
    by (simp add: execute_tool_def str_join_def)
  from 1 2 show ?thesis by (simp add: numeral_2_eq_2)
qed

lemma map_of_filter_keys:
  "map_of (filter (\<lambda>(k, v). P k) xs) k = (if P k then map_of xs k else None)"
  by (induction xs) auto

lemma available_tools_of_nth:
  assumes "i < length tools"
  shows "available_tools_of tools ! i
           = Tool [\<lparr>fd_name = mcp_name (tools ! i),
                    fd_description = mcp_description (tools ! i),
                    fd_parameters =
                      filter (\<lambda>(k, v). k \<notin> set [''additionalProperties'', ''$schema''])
                        (inputSchema (tools ! i))\<rparr>]"
  using assms by (simp add: available_tools_of_def)

text \<open>
  C7. Each listed tool becomes one declaration with the same name and description,
  whose parameters are the \<^verbatim>\<open>inputSchema\<close> without the keys \<^verbatim>\<open>additionalProperties\<close> and
  \<^verbatim>\<open>$schema\<close>: these two keys are absent, every other key keeps its value, and the order
  stays. These declarations are what the model service receives with the first query.
\<close>

theorem available_tools_translation:
  "length (available_tools_of tools) = length tools
   \<and> (\<forall>i < length tools. \<exists>d.
        available_tools_of tools ! i = Tool [d]
        \<and> fd_name d = mcp_name (tools ! i)
        \<and> fd_description d = mcp_description (tools ! i)
        \<and> fd_parameters d
            = filter (\<lambda>(k, v). k \<noteq> ''additionalProperties'' \<and> k \<noteq> ''$schema'')
                (inputSchema (tools ! i))
        \<and> (\<forall>k. map_of (fd_parameters d) k
                 = (if k = ''additionalProperties'' \<or> k = ''$schema'' then None
                    else map_of (inputSchema (tools ! i)) k)))
   \<and> (spawn h = None \<and> initialize h = None \<and> list_tools h = Inr tools
        \<and> lower (strip s) \<noteq> ''quit'' \<longrightarrow>
        prefix [Enter_stdio_client, Enter_ClientSession, Initialize, List_tools,
                Print_connected (map mcp_name tools),
                Print (PyStr ''\<newline>MCP Chatbot Started!''),
                Print (PyStr ''Type your queries or 'quit' to exit.''),
                Input,
                Generate_content (available_tools_of tools) (strip s)]
          (fst (connect_to_server_and_run (Suc n) h (Line s w # ts))))"
proof -
  have 1: "length (available_tools_of tools) = length tools"
    by (simp add: available_tools_of_def)
  have 2: "\<forall>i < length tools. \<exists>d.
        available_tools_of tools ! i = Tool [d]
        \<and> fd_name d = mcp_name (tools ! i)
        \<and> fd_description d = mcp_description (tools ! i)
        \<and> fd_parameters d
            = filter (\<lambda>(k, v). k \<noteq> ''additionalProperties'' \<and> k \<noteq> ''$schema'')
                (inputSchema (tools ! i))
        \<and> (\<forall>k. map_of (fd_parameters d) k
                 = (if k = ''additionalProperties'' \<or> k = ''$schema'' then None
                    else map_of (inputSchema (tools ! i)) k))"
  proof (intro allI impI)
    fix i assume i: "i < length tools"
    let ?d = "\<lparr>fd_name = mcp_name (tools ! i),
               fd_description = mcp_description (tools ! i),
               fd_parameters =
                 filter (\<lambda>(k, v). k \<noteq> ''additionalProperties'' \<and> k \<noteq> ''$schema'')
                   (inputSchema (tools ! i))\<rparr>"
    have a: "available_tools_of tools ! i = Tool [?d]"
      using available_tools_of_nth [OF i] by simp
    have b: "\<forall>k. map_of (fd_parameters ?d) k
                 = (if k = ''additionalProperties'' \<or> k = ''$schema'' then None
                    else map_of (inputSchema (tools ! i)) k)"
      using map_of_filter_keys
              [of "\<lambda>k. k \<noteq> ''additionalProperties'' \<and> k \<noteq> ''$schema''" "inputSchema (tools ! i)"]
      by simp
    from a b show "\<exists>d.
        available_tools_of tools ! i = Tool [d]
        \<and> fd_name d = mcp_name (tools ! i)
        \<and> fd_description d = mcp_description (tools ! i)
        \<and> fd_parameters d
            = filter (\<lambda>(k, v). k \<noteq> ''additionalProperties'' \<and> k \<noteq> ''$schema'')
                (inputSchema (tools ! i))
        \<and> (\<forall>k. map_of (fd_parameters d) k
                 = (if k = ''additionalProperties'' \<or> k = ''$schema'' then None
                    else map_of (inputSchema (tools ! i)) k))"
      by (intro exI [of _ ?d]) simp
  qed
  have 3: "spawn h = None \<and> initialize h = None \<and> list_tools h = Inr tools
        \<and> lower (strip s) \<noteq> ''quit'' \<longrightarrow>
        prefix [Enter_stdio_client, Enter_ClientSession, Initialize, List_tools,
                Print_connected (map mcp_name tools),
                Print (PyStr ''\<newline>MCP Chatbot Started!''),
                Print (PyStr ''Type your queries or 'quit' to exit.''),
                Input,
                Generate_content (available_tools_of tools) (strip s)]
          (fst (connect_to_server_and_run (Suc n) h (Line s w # ts)))"
  proof (intro impI, elim conjE)
    assume a: "spawn h = None" "initialize h = None" "list_tools h = Inr tools"
      "lower (strip s) \<noteq> ''quit''"
    obtain evs st where
      l: "MCP_ChatBot_chat_loop_while (available_tools_of tools) (Suc n) (Line s w # ts) = (evs, st)"
      by (cases "MCP_ChatBot_chat_loop_while (available_tools_of tools) (Suc n) (Line s w # ts)")
    with MCP_ChatBot_chat_loop_while_dispatches [OF a(4), of "available_tools_of tools" n w ts]
    obtain evs' where e: "evs = Input # Generate_content (available_tools_of tools) (strip s) # evs'"
      by (auto simp: prefix_def)
    from a l e show "prefix [Enter_stdio_client, Enter_ClientSession, Initialize, List_tools,
                Print_connected (map mcp_name tools),
                Print (PyStr ''\<newline>MCP Chatbot Started!''),
                Print (PyStr ''Type your queries or 'quit' to exit.''),
                Input,
                Generate_content (available_tools_of tools) (strip s)]
          (fst (connect_to_server_and_run (Suc n) h (Line s w # ts)))"
      by (cases st) (simp_all add: connect_to_server_and_run_def MCP_ChatBot_chat_loop_def)
  qed
  from 1 2 3 show ?thesis by blast
qed

text \<open>The theorem on one tool whose schema has both keys.\<close>

theorem available_tools_translation_witness:
  "available_tools_of
     [\<lparr>mcp_name = ''search_papers'', mcp_description = Some ''Search for papers on arXiv'',
       inputSchema = [(''type'', PyStr ''object''),
                      (''$schema'', PyStr ''http://json-schema.org/draft-07/schema#''),
                      (''properties'', PyDict [(PyStr ''topic'', PyDict [(PyStr ''type'', PyStr ''string'')])]),
                      (''additionalProperties'', PyBool False),
                      (''required'', PyList [PyStr ''topic''])]\<rparr>]
   = [Tool [\<lparr>fd_name = ''search_papers'', fd_description = Some ''Search for papers on arXiv'',
            fd_parameters = [(''type'', PyStr ''object''),
                      (''properties'', PyDict [(PyStr ''topic'', PyDict [(PyStr ''type'', PyStr ''string'')])]),
                      (''required'', PyList [PyStr ''topic''])]\<rparr>]]"
proof -
  let ?t = "\<lparr>mcp_name = ''search_papers'', mcp_description = Some ''Search for papers on arXiv'',
       inputSchema = [(''type'', PyStr ''object''),
                      (''$schema'', PyStr ''http://json-schema.org/draft-07/schema#''),
                      (''properties'', PyDict [(PyStr ''topic'', PyDict [(PyStr ''type'', PyStr ''string'')])]),
                      (''additionalProperties'', PyBool False),
                      (''required'', PyList [PyStr ''topic''])]\<rparr>"
  have i: "(0::nat) < length [?t]" by simp
  from available_tools_translation [where tools = "[?t]"] i
  obtain d where d: "available_tools_of [?t] ! 0 = Tool [d]"
    "fd_name d = mcp_name ([?t] ! 0)" "fd_description d = mcp_description ([?t] ! 0)"
    "fd_parameters d
       = filter (\<lambda>(k, v). k \<noteq> ''additionalProperties'' \<and> k \<noteq> ''$schema'') (inputSchema ([?t] ! 0))"
    by blast
  have l: "length (available_tools_of [?t]) = 1"
    using available_tools_translation [where tools = "[?t]"] by simp
  then obtain x where x: "available_tools_of [?t] = [x]"
    by (cases "available_tools_of [?t]") auto
  with d(1) have "available_tools_of [?t] = [Tool [d]]" by simp
  moreover from d(2-4) have "d = \<lparr>fd_name = ''search_papers'', fd_description = Some ''Search for papers on arXiv'',
            fd_parameters = [(''type'', PyStr ''object''),
                      (''properties'', PyDict [(PyStr ''topic'', PyDict [(PyStr ''type'', PyStr ''string'')])]),
                      (''required'', PyList [PyStr ''topic''])]\<rparr>"
    by (cases d) simp
  ultimately show ?thesis by simp
qed

text \<open>
  With standard input used up, each iteration reports \<open>EOFError\<close> and starts the next
  one: the loop never ends.
\<close>

lemma MCP_ChatBot_chat_loop_while_end_of_input:
  "MCP_ChatBot_chat_loop_while tools n []
     = (concat (replicate n [Input, Print_error ''\<newline>Error: '' EOFError]), Running)"
  by (induction n) simp_all

lemma chat_loop_while_end_of_input:
  "chat_loop_while n []
     = (concat (replicate n [Input, Print_error ''\<newline> Error: '' EOFError]), Running)"
  by (induction n) simp_all

lemma MCP_ChatBot_process_query_no_exit:
  "Exit_stdio_client \<notin> set (fst (MCP_ChatBot_process_query tools w q))
   \<and> Exit_ClientSession \<notin> set (fst (MCP_ChatBot_process_query tools w q))"
  by (auto simp: MCP_ChatBot_process_query_def split: sum.splits option.splits)

lemma MCP_ChatBot_chat_loop_while_no_exit:
  "Exit_stdio_client \<notin> set (fst (MCP_ChatBot_chat_loop_while tools n ts))
   \<and> Exit_ClientSession \<notin> set (fst (MCP_ChatBot_chat_loop_while tools n ts))"
proof (induction tools n ts rule: MCP_ChatBot_chat_loop_while.induct)
  case (4 tools n s w ts)
  obtain evs r where p: "MCP_ChatBot_process_query tools w (strip s) = (evs, r)"
    by (cases "MCP_ChatBot_process_query tools w (strip s)")
  with MCP_ChatBot_process_query_no_exit [of tools w "strip s"]
  have e: "Exit_stdio_client \<notin> set evs" "Exit_ClientSession \<notin> set evs" by simp_all
  show ?case
  proof (cases "lower (strip s) = ''quit''")
    case True
    then show ?thesis by simp
  next
    case False
    show ?thesis
    proof (cases r)
      case (Inl x)
      show ?thesis
      proof (cases "is_Exception x")
        case True
        from "4.IH"(1) [OF refl False p [symmetric] Inl True] False p e Inl True
        show ?thesis by simp
      next
        case nx: False
        with False p e Inl show ?thesis by simp
      qed
    next
      case (Inr y)
      from "4.IH"(2) [OF refl False p [symmetric] Inr] False p e Inr show ?thesis
        by simp
    qed
  qed
qed simp_all

text \<open>
  On every run that ends after the host was spawned, each of the two context managers
  is exited exactly once.
\<close>

lemma connect_to_server_and_run_closes_once:
  assumes "spawn h = None" and "snd (connect_to_server_and_run n h ts) \<noteq> Running"
  shows "count_list (fst (connect_to_server_and_run n h ts)) Exit_stdio_client = 1
       \<and> count_list (fst (connect_to_server_and_run n h ts)) Exit_ClientSession = 1"
proof (cases "initialize h")
  case (Some e)
  with assms(1) show ?thesis by (simp add: connect_to_server_and_run_def)
next
  case None
  note ini = None
  show ?thesis
  proof (cases "list_tools h")
    case (Inl e)
    with assms(1) ini show ?thesis by (simp add: connect_to_server_and_run_def)
  next
    case (Inr tools)
    obtain evs st where l: "MCP_ChatBot_chat_loop_while (available_tools_of tools) n ts = (evs, st)"
      by (cases "MCP_ChatBot_chat_loop_while (available_tools_of tools) n ts")
    with MCP_ChatBot_chat_loop_while_no_exit [of "available_tools_of tools" n ts]
    have e: "Exit_stdio_client \<notin> set evs" "Exit_ClientSession \<notin> set evs" by simp_all
    from assms ini Inr l have st: "st \<noteq> Running"
      by (cases st) (simp_all add: connect_to_server_and_run_def MCP_ChatBot_chat_loop_def)
    with assms(1) ini Inr l e show ?thesis
      by (cases st) (simp_all add: connect_to_server_and_run_def MCP_ChatBot_chat_loop_def)
  qed
qed

text \<open>
  C8 on the code, at end of input. The host starts and lists its tools, and standard
  input is empty: whatever the number of iterations, the run is still in the loop, its
  trace is the startup followed by one \<open>EOFError\<close> message for each iteration, and
  neither context manager has been exited.
\<close>

theorem connect_to_server_and_run_end_of_input:
  "snd (connect_to_server_and_run n \<lparr>spawn = None, initialize = None, list_tools = Inr tools\<rparr> [])
     = Running
   \<and> Exit_stdio_client
       \<notin> set (fst (connect_to_server_and_run n
                      \<lparr>spawn = None, initialize = None, list_tools = Inr tools\<rparr> []))
   \<and> Exit_ClientSession
       \<notin> set (fst (connect_to_server_and_run n
                      \<lparr>spawn = None, initialize = None, list_tools = Inr tools\<rparr> []))
   \<and> fst (connect_to_server_and_run n \<lparr>spawn = None, initialize = None, list_tools = Inr tools\<rparr> [])
     = [Enter_stdio_client, Enter_ClientSession, Initialize, List_tools,
        Print_connected (map mcp_name tools),
        Print (PyStr ''\<newline>MCP Chatbot Started!''),
        Print (PyStr ''Type your queries or 'quit' to exit.'')]
       @ concat (replicate n [Input, Print_error ''\<newline>Error: '' EOFError])"
proof -
  have l: "MCP_ChatBot_chat_loop (available_tools_of tools) n []
             = ([Print (PyStr ''\<newline>MCP Chatbot Started!''),
                 Print (PyStr ''Type your queries or 'quit' to exit.'')]
                @ concat (replicate n [Input, Print_error ''\<newline>Error: '' EOFError]), Running)"
    by (simp add: MCP_ChatBot_chat_loop_def MCP_ChatBot_chat_loop_while_end_of_input)
  have e: "Exit_stdio_client \<notin> set (concat (replicate n [Input, Print_error ''\<newline>Error: '' EOFError]))"
          "Exit_ClientSession \<notin> set (concat (replicate n [Input, Print_error ''\<newline>Error: '' EOFError]))"
    by auto
  from l e show ?thesis
    by (simp add: connect_to_server_and_run_def)
qed

text \<open>
  A run does end when a line of the input is a quit: with more fuel than lines before
  it, the loop is no longer running, and both exits have happened once.
\<close>

lemma MCP_ChatBot_chat_loop_while_quit_ends:
  "lower (strip q) = ''quit'' \<Longrightarrow> length pre < n \<Longrightarrow>
     snd (MCP_ChatBot_chat_loop_while tools n (pre @ Line q w # post)) \<noteq> Running"
proof (induction pre arbitrary: n)
  case Nil
  then obtain m where "n = Suc m" by (cases n) auto
  with Nil show ?case by simp
next
  case (Cons t pre)
  then obtain m where n: "n = Suc m" and m: "length pre < m" by (cases n) auto
  note ih = Cons.IH [OF Cons.prems(1) m]
  show ?case
  proof (cases t)
    case Interrupt
    with n show ?thesis by simp
  next
    case (Line s w')
    obtain evs r where p: "MCP_ChatBot_process_query tools w' (strip s) = (evs, r)"
      by (cases "MCP_ChatBot_process_query tools w' (strip s)")
    show ?thesis
    proof (cases r)
      case (Inl e)
      with Line n p ih show ?thesis by (simp add: Let_def)
    next
      case (Inr y)
      with Line n p ih show ?thesis by (simp add: Let_def)
    qed
  qed
qed

lemma connect_to_server_and_run_quit_closes_once:
  assumes "spawn h = None" and "lower (strip q) = ''quit''" and "length pre < n"
  shows "snd (connect_to_server_and_run n h (pre @ Line q w # post)) \<noteq> Running
       \<and> count_list (fst (connect_to_server_and_run n h (pre @ Line q w # post))) Exit_stdio_client = 1
       \<and> count_list (fst (connect_to_server_and_run n h (pre @ Line q w # post))) Exit_ClientSession = 1"
proof -
  have "snd (connect_to_server_and_run n h (pre @ Line q w # post)) \<noteq> Running"
  proof (cases "initialize h")
    case (Some e)
    with assms(1) show ?thesis by (simp add: connect_to_server_and_run_def)
  next
    case None
    note ini = None
    show ?thesis
    proof (cases "list_tools h")
      case (Inl e)
      with assms(1) ini show ?thesis by (simp add: connect_to_server_and_run_def)
    next
      case (Inr tools)
      obtain evs st where
        l: "MCP_ChatBot_chat_loop_while (available_tools_of tools) n (pre @ Line q w # post) = (evs, st)"
        by (cases "MCP_ChatBot_chat_loop_while (available_tools_of tools) n (pre @ Line q w # post)")
      with MCP_ChatBot_chat_loop_while_quit_ends [OF assms(2,3), of "available_tools_of tools" w post]
      have "st \<noteq> Running" by simp
      with assms(1) ini Inr l show ?thesis
        by (cases st) (simp_all add: connect_to_server_and_run_def MCP_ChatBot_chat_loop_def)
    qed
  qed
  with connect_to_server_and_run_closes_once [OF assms(1) this] show ?thesis by simp
qed

end
